theory Spec2Isabelle
  imports Complex_Main
begin

section \<open>Python values used by the pipeline\<close>

text \<open>
  The pipeline is two Python modules, \<^verbatim>\<open>vs_pipeline.py\<close> (batch orchestration, probing,
  progress monitoring, watchdog, verification) and \<^verbatim>\<open>rewrap.py\<close> (the ProRes rewrap
  stage). Strings are modelled as \<^typ>\<open>string\<close> restricted to ASCII: case folding,
  whitespace and digits are the ASCII ones. Python integers are \<^typ>\<open>int\<close> or
  \<^typ>\<open>nat\<close>. Time stamps and modification times are Python floats that the code only
  compares and subtracts; they are modelled as rationals.
\<close>

datatype py_exception =
    FileNotFoundError
  | ValueError
  | ZeroDivisionError
  | OSError
  | TimeoutExpired

definition py_isspace :: "char \<Rightarrow> bool" where
  "py_isspace c = (c \<in> set [CHR '' '', CHR 0x09, CHR 0x0A, CHR 0x0B, CHR 0x0C, CHR 0x0D,
                                CHR 0x1C, CHR 0x1D, CHR 0x1E, CHR 0x1F])"

definition py_isdigit :: "char \<Rightarrow> bool" where
  "py_isdigit c = (c \<in> set ''0123456789'')"

definition lower_char :: "char \<Rightarrow> char" where
  "lower_char c =
     (case map_of (zip ''ABCDEFGHIJKLMNOPQRSTUVWXYZ'' ''abcdefghijklmnopqrstuvwxyz'') c of
        Some d \<Rightarrow> d
      | None \<Rightarrow> c)"

definition lower :: "string \<Rightarrow> string" where
  "lower s = map lower_char s"

definition strip :: "string \<Rightarrow> string" where
  "strip s = rev (dropWhile py_isspace (rev (dropWhile py_isspace s)))"

text \<open>\<^verbatim>\<open>s.startswith(p)\<close> and the substring test \<^verbatim>\<open>needle in hay\<close>.\<close>

fun startswith :: "string \<Rightarrow> string \<Rightarrow> bool" where
  "startswith s [] = True"
| "startswith [] (p # ps) = False"
| "startswith (c # cs) (p # ps) = (c = p \<and> startswith cs ps)"

fun str_in :: "string \<Rightarrow> string \<Rightarrow> bool" where
  "str_in needle [] = (needle = [])"
| "str_in needle (c # cs) = (startswith (c # cs) needle \<or> str_in needle cs)"

text \<open>\<^verbatim>\<open>s.split(sep)\<close> for a one-character separator, and \<^verbatim>\<open>s.split(sep, 1)\<close>.\<close>

fun split_on :: "char \<Rightarrow> string \<Rightarrow> string list" where
  "split_on sep [] = [[]]"
| "split_on sep (c # cs) =
     (if c = sep then [] # split_on sep cs
      else (case split_on sep cs of
              [] \<Rightarrow> [[c]]
            | w # ws \<Rightarrow> (c # w) # ws))"

definition split_once :: "char \<Rightarrow> string \<Rightarrow> string \<times> string" where
  "split_once sep s = (takeWhile (\<lambda>c. c \<noteq> sep) s, drop 1 (dropWhile (\<lambda>c. c \<noteq> sep) s))"

text \<open>\<^verbatim>\<open>s.isdigit()\<close> and \<^verbatim>\<open>int(s)\<close> on a string of decimal digits.\<close>

definition isdigit :: "string \<Rightarrow> bool" where
  "isdigit s = (s \<noteq> [] \<and> list_all py_isdigit s)"

definition digit_val :: "char \<Rightarrow> nat" where
  "digit_val c =
     (case map_of (zip ''0123456789'' [0, 1, 2, 3, 4, 5, 6, 7, 8, 9]) c of
        Some d \<Rightarrow> d
      | None \<Rightarrow> 0)"

definition nat_of_digits :: "string \<Rightarrow> nat" where
  "nat_of_digits s = foldl (\<lambda>acc c. 10 * acc + digit_val c) 0 s"

text \<open>
  \<^verbatim>\<open>int(s)\<close> on an arbitrary string: surrounding whitespace is ignored, one sign is
  allowed, the rest must be decimal digits; anything else raises \<^verbatim>\<open>ValueError\<close>.
  (Digit grouping with underscores is not modelled.)
\<close>

definition py_int :: "string \<Rightarrow> py_exception + int" where
  "py_int s =
     (let t = strip s;
          (neg, body) = (case t of
                           c # cs \<Rightarrow> if c = CHR ''-'' then (True, cs)
                                     else if c = CHR ''+'' then (False, cs)
                                     else (False, t)
                         | [] \<Rightarrow> (False, t))
      in if isdigit body
         then Inr (if neg then - int (nat_of_digits body) else int (nat_of_digits body))
         else Inl ValueError)"

section \<open>Paths and the file system\<close>

text \<open>
  \<^verbatim>\<open>os.path\<close> with the POSIX separator: \<^verbatim>\<open>basename\<close> is what follows the last slash,
  \<^verbatim>\<open>splitext\<close> splits at the last dot of the last component unless only dots precede it,
  \<^verbatim>\<open>join\<close> inserts one slash unless the second part is absolute.
\<close>

definition basename :: "string \<Rightarrow> string" where
  "basename p = rev (takeWhile (\<lambda>c. c \<noteq> CHR ''/'') (rev p))"

definition splitext :: "string \<Rightarrow> string \<times> string" where
  "splitext p =
     (let name = basename p;
          dir = take (length p - length name) p;
          ext = rev (takeWhile (\<lambda>c. c \<noteq> CHR ''.'') (rev name))
      in if length ext = length name then (p, [])
         else (let pre = take (length name - length ext - 1) name
               in if list_all (\<lambda>c. c = CHR ''.'') pre then (p, [])
                  else (dir @ pre, CHR ''.'' # ext)))"

definition join :: "string \<Rightarrow> string \<Rightarrow> string" where
  "join a b =
     (if startswith b ''/'' then b
      else if a = [] \<or> last a = CHR ''/'' then a @ b
      else a @ ''/'' @ b)"

text \<open>
  The file system as the code observes it: a path either names no file or names one
  with a modification time and a size in bytes.
\<close>

record fstat =
  st_mtime :: rat
  st_size :: nat

type_synonym filesystem = "string \<rightharpoonup> fstat"

definition path_exists :: "filesystem \<Rightarrow> string \<Rightarrow> bool" where
  "path_exists fs p = (fs p \<noteq> None)"

definition getmtime :: "filesystem \<Rightarrow> string \<Rightarrow> py_exception + rat" where
  "getmtime fs p = (case fs p of None \<Rightarrow> Inl FileNotFoundError | Some st \<Rightarrow> Inr (st_mtime st))"

definition getsize :: "filesystem \<Rightarrow> string \<Rightarrow> py_exception + nat" where
  "getsize fs p = (case fs p of None \<Rightarrow> Inl FileNotFoundError | Some st \<Rightarrow> Inr (st_size st))"

section \<open>Configuration of \<^verbatim>\<open>vs_pipeline.py\<close>\<close>

text \<open>The module-level switches the modelled functions read.\<close>

record config =
  SKIP_EXISTING :: bool
  TEST_MODE :: bool
  TEST_FRAME_COUNT :: int
  BATCH_MODE :: bool
  RICH_AVAILABLE :: bool
  DEBUG_MODE :: bool

section \<open>Skip planning\<close>

definition get_output_filename :: "string \<Rightarrow> string \<Rightarrow> string" where
  "get_output_filename input_file output_dir =
     (let base_name = fst (splitext (basename input_file))
      in join output_dir (base_name @ ''.mov''))"

definition should_skip_file :: "config \<Rightarrow> filesystem \<Rightarrow> string \<Rightarrow> string \<Rightarrow> py_exception + bool" where
  "should_skip_file cfg fs input_file output_file =
     (if \<not> SKIP_EXISTING cfg then Inr False
      else if path_exists fs output_file then
        (case getmtime fs input_file of
           Inl e \<Rightarrow> Inl e
         | Inr input_time \<Rightarrow>
             (case getmtime fs output_file of
                Inl e \<Rightarrow> Inl e
              | Inr output_time \<Rightarrow>
                  if output_time > input_time then
                    (case getsize fs output_file of
                       Inl e \<Rightarrow> Inl e
                     | Inr output_size \<Rightarrow>
                         if output_size > 1000000 then Inr True else Inr False)
                  else Inr False))
      else Inr False)"

section \<open>External tools, diagnostics and the program state\<close>

text \<open>
  A Python dict of strings is kept as an association list: \<^verbatim>\<open>d[k] = v\<close> replaces the
  value of an existing key or appends a new one, \<^verbatim>\<open>d.get(k, default)\<close> reads it, and the
  empty dict is the only falsy one.
\<close>

type_synonym dict = "(string \<times> string) list"

definition dict_set :: "string \<Rightarrow> string \<Rightarrow> dict \<Rightarrow> dict" where
  "dict_set k v d =
     (if k \<in> fst ` set d then map (\<lambda>(k', v'). if k' = k then (k', v) else (k', v')) d
      else d @ [(k, v)])"

definition dict_get :: "dict \<Rightarrow> string \<Rightarrow> string \<Rightarrow> string" where
  "dict_get d k dflt = (case map_of d k of Some v \<Rightarrow> v | None \<Rightarrow> dflt)"

text \<open>
  The parsing loop shared by \<^verbatim>\<open>get_video_info\<close> and \<^verbatim>\<open>verify_color_space\<close>: every
  line of the stripped standard output that holds an equals sign is split at the
  first one into key and value.
\<close>

definition parse_key_values :: "string \<Rightarrow> dict" where
  "parse_key_values out =
     foldl (\<lambda>info line.
              if CHR ''='' \<in> set line
              then (let (k, v) = split_once CHR ''='' line in dict_set k v info)
              else info)
           [] (split_on CHR 0x0A (strip out))"

text \<open>
  A subprocess is started from an argument vector (\<^verbatim>\<open>rewrap.py\<close>) or from a shell
  command line (\<^verbatim>\<open>vs_pipeline.py\<close>). It either completes with a return code, standard
  output and standard error, or the call itself raises (the program is missing, the
  timeout expires). What the tools answer is not part of the program: it is a
  parameter of the model. The prober only reads files; the encoders may write them.
\<close>

datatype command = Argv "string list" | Shell string

datatype outcome = Completed int string string | Raised py_exception

record tools =
  probe :: "filesystem \<Rightarrow> command \<Rightarrow> outcome"
  encode :: "filesystem \<Rightarrow> command \<Rightarrow> outcome \<times> filesystem"

text \<open>What \<^verbatim>\<open>rewrap.py\<close> prints to standard error, one constructor per message.\<close>

datatype diag =
    SourceNotFound string
  | VideoInfoError int
  | FfprobeStderr string
  | AnalysisWarning
  | EncodingError int
  | FfmpegStderr string
  | HintPixelFormat
  | HintFfmpegMissing
  | HintPermission
  | OutputTooSmall nat
  | OutputNotCreated
  | UnexpectedError py_exception

text \<open>What \<^verbatim>\<open>vs_pipeline.py\<close> passes to \<^verbatim>\<open>log_message\<close>, one constructor per message.\<close>

datatype logmsg =
    StartingProcessing string
  | Skipping string
  | Rewrapping string
  | FailedToRewrap string
  | FailedToProcess string
  | SuccessfullyProcessed string
  | ColorSpaceMaintained
  | OutputVerificationFailed string
  | ErrorProcessing string py_exception
  | FrameCountMetadata int
  | FrameCountEstimated int
  | FrameCountFallback int py_exception
  | ProcessingCommand string
  | FailedToStart
  | VerifyFileMissing
  | VerifyFileTooSmall nat
  | VerifyDurationUnavailable
  | VerifyValid
  | VerifyUnparsedDuration string
  | VerifyProbeFailed int
  | VerifyError py_exception
  | ColorFileMissing
  | ColorInfo dict
  | ColorProper
  | ColorImproper
  | ColorProbeFailed int
  | ColorError py_exception
  | BatchFileOk string
  | BatchFileFailed string
  | NoProcessToMonitor
  | DebugStderr string
  | DebugVapourSynthDetected string

text \<open>The speed column of a progress update, and the update itself.\<close>

datatype speed = Starting | Calculating | Fps rat

record progress_update =
  completed :: int
  total :: int
  speed_text :: speed

text \<open>
  The state the functions read and change: the file system, the subprocess calls made
  so far, what was printed to standard error and logged, the progress updates sent to
  the per-file progress bar, and the fields of the global \<^verbatim>\<open>AppContext\<close> object
  (prefixed \<open>ctx_\<close>).
\<close>

record state =
  files :: filesystem
  subprocess_calls :: "command list"
  errs :: "diag list"
  logs :: "logmsg list"
  progress_updates :: "progress_update list"
  ctx_output_dir :: string
  ctx_input_file :: string
  ctx_output_file :: string
  ctx_cmd :: string
  ctx_current_frame :: int
  ctx_frame_count :: int
  ctx_vapoursynth_started :: bool
  ctx_processing_task_created :: bool
  ctx_last_frame_time :: "rat option"
  ctx_last_frame_count :: int
  ctx_has_process :: bool
  ctx_has_current_file_task :: bool

definition call :: "command \<Rightarrow> state \<Rightarrow> state" where
  "call c s = s\<lparr>subprocess_calls := subprocess_calls s @ [c]\<rparr>"

definition eprint :: "diag \<Rightarrow> state \<Rightarrow> state" where
  "eprint d s = s\<lparr>errs := errs s @ [d]\<rparr>"

definition log_message :: "logmsg \<Rightarrow> state \<Rightarrow> state" where
  "log_message m s = s\<lparr>logs := logs s @ [m]\<rparr>"

section \<open>The rewrap stage (\<^verbatim>\<open>rewrap.py\<close>)\<close>

definition get_video_info_cmd :: "string \<Rightarrow> command" where
  "get_video_info_cmd source_file =
     Argv [''ffprobe'', ''-v'', ''error'', ''-select_streams'', ''v:0'',
           ''-show_entries'',
           ''stream=codec_name,pix_fmt,width,height,field_order,r_frame_rate'',
           ''-show_entries'', ''format=format_name'',
           ''-of'', ''default=noprint_wrappers=1'', source_file]"

text \<open>
  \<^verbatim>\<open>get_video_info\<close> catches only \<^verbatim>\<open>CalledProcessError\<close> (a non-zero exit), reports it
  on standard error and returns \<^verbatim>\<open>None\<close>; any other exception of the call propagates.
\<close>

definition get_video_info :: "tools \<Rightarrow> state \<Rightarrow> string \<Rightarrow> (py_exception + dict option) \<times> state" where
  "get_video_info T s source_file =
     (let cmd = get_video_info_cmd source_file;
          s1 = call cmd s
      in case probe T (files s1) cmd of
           Raised e \<Rightarrow> (Inl e, s1)
         | Completed returncode out err \<Rightarrow>
             if returncode \<noteq> 0
             then (Inr None, eprint (FfprobeStderr err) (eprint (VideoInfoError returncode) s1))
             else (Inr (Some (parse_key_values out)), s1))"

definition needs_rewrap_formats :: "string list" where
  "needs_rewrap_formats = [''avi'', ''matroska'', ''mp4'', ''mpeg'', ''mpegts'', ''mxf'']"

definition needs_rewrap_extensions :: "string list" where
  "needs_rewrap_extensions =
     [''.avi'', ''.mkv'', ''.mp4'', ''.m4v'', ''.mpg'', ''.mpeg'',
      ''.ts'', ''.mts'', ''.m2ts'', ''.mxf'', ''.dv'', ''.hdv'']"

text \<open>\<^verbatim>\<open>not video_info\<close>: the value is \<^verbatim>\<open>None\<close> or the empty dict.\<close>

definition falsy_info :: "dict option \<Rightarrow> bool" where
  "falsy_info video_info = (case video_info of None \<Rightarrow> True | Some info \<Rightarrow> info = [])"

definition needs_rewrapping :: "string \<Rightarrow> dict option \<Rightarrow> state \<Rightarrow> bool \<times> state" where
  "needs_rewrapping source_file video_info s =
     (if falsy_info video_info then (True, eprint AnalysisWarning s)
      else
        (let info = the video_info;
             format_name = lower (dict_get info ''format_name'' []);
             codec_name = lower (dict_get info ''codec_name'' []);
             file_ext = lower (snd (splitext source_file));
             format_needs_rewrap = list_ex (\<lambda>fmt. str_in fmt format_name) needs_rewrap_formats;
             extension_needs_rewrap = (file_ext \<in> set needs_rewrap_extensions)
         in if str_in ''mov'' format_name \<or> str_in ''quicktime'' format_name then
              (if str_in ''prores'' codec_name then (True, s) else (True, s))
            else if format_needs_rewrap \<or> extension_needs_rewrap then (True, s)
            else (True, s)))"

text \<open>
  \<^verbatim>\<open>detect_interlacing\<close>: \<^verbatim>\<open>int(video_info.get('height', 0))\<close> raises \<^verbatim>\<open>ValueError\<close>
  when the probed height is not an integer literal.
\<close>

definition detect_interlacing :: "dict \<Rightarrow> py_exception + (bool \<times> bool)" where
  "detect_interlacing video_info =
     (let field_order = lower (dict_get video_info ''field_order'' [])
      in case (case map_of video_info ''height'' of None \<Rightarrow> Inr 0 | Some h \<Rightarrow> py_int h) of
           Inl e \<Rightarrow> Inl e
         | Inr height \<Rightarrow>
             (let interlaced_indicators = [''tt'', ''bb'', ''tb'', ''bt''];
                  is_interlaced0 = list_ex (\<lambda>indicator. str_in indicator field_order)
                                     interlaced_indicators;
                  is_interlaced = (if \<not> is_interlaced0
                                   then (if height \<in> set [480, 576, 1080] then True
                                         else is_interlaced0)
                                   else is_interlaced0);
                  top_field_first = (if str_in ''bb'' field_order \<or> str_in ''bt'' field_order
                                     then False
                                     else if height = 480 then False
                                     else True)
              in Inr (is_interlaced, top_field_first)))"

text \<open>
  The decision taken in \<^verbatim>\<open>rewrap_to_prores\<close>: the detected one when the probe gave
  information, interlaced and top field first otherwise.
\<close>

definition interlace_decision :: "dict option \<Rightarrow> py_exception + (bool \<times> bool)" where
  "interlace_decision video_info =
     (if falsy_info video_info then Inr (True, True) else detect_interlacing (the video_info))"

definition rewrap_output_file :: "string \<Rightarrow> string \<Rightarrow> string" where
  "rewrap_output_file source_file output_directory =
     (let base_name = basename source_file;
          base_name_no_ext = fst (splitext base_name)
      in join output_directory (base_name_no_ext @ ''_prores.mov''))"

definition rewrap_command :: "string \<Rightarrow> string \<Rightarrow> bool \<Rightarrow> bool \<Rightarrow> string list" where
  "rewrap_command source_file output_file is_interlaced top_field_first =
     [''ffmpeg'', ''-i'', source_file, ''-c:v'', ''prores_ks'', ''-profile:v'', ''3'',
      ''-pix_fmt'', ''yuv422p10le'']
     @ (if is_interlaced
        then [''-flags'', ''+ildct+ilme'', ''-top'', (if top_field_first then ''1'' else ''0'')]
        else [])
     @ [''-color_primaries'', ''12'', ''-color_trc'', ''11'', ''-colorspace'', ''12'',
        ''-color_range'', ''tv'', ''-c:a'', ''pcm_s24le'', ''-y'', output_file]"

definition encoding_hints :: "string \<Rightarrow> diag list" where
  "encoding_hints err =
     (if str_in ''Invalid pixel format'' err then [HintPixelFormat]
      else if str_in ''No such file or directory'' err then [HintFfmpegMissing]
      else if str_in ''Permission denied'' err then [HintPermission]
      else [])"

text \<open>
  \<^verbatim>\<open>rewrap_to_prores\<close>. The result is \<open>Inl e\<close> when an exception leaves the function
  (from the probe or from \<^verbatim>\<open>detect_interlacing\<close>, both outside the \<^verbatim>\<open>try\<close>),
  \<open>Inr None\<close> for the failure result and \<open>Inr (Some p)\<close> for a returned path.
\<close>

definition rewrap_to_prores :: "tools \<Rightarrow> state \<Rightarrow> string \<Rightarrow> string \<Rightarrow> (py_exception + string option) \<times> state" where
  "rewrap_to_prores T s source_file output_directory =
     (if \<not> path_exists (files s) source_file
      then (Inr None, eprint (SourceNotFound source_file) s)
      else
        (case get_video_info T s source_file of
           (Inl e, s1) \<Rightarrow> (Inl e, s1)
         | (Inr video_info, s1) \<Rightarrow>
             (case needs_rewrapping source_file video_info s1 of
                (False, s2) \<Rightarrow> (Inr (Some source_file), s2)
              | (True, s2) \<Rightarrow>
                  (let output_file = rewrap_output_file source_file output_directory
                   in case interlace_decision video_info of
                        Inl e \<Rightarrow> (Inl e, s2)
                      | Inr (is_interlaced, top_field_first) \<Rightarrow>
                          (let command = rewrap_command source_file output_file
                                           is_interlaced top_field_first;
                               s3 = call (Argv command) s2
                           in case encode T (files s3) (Argv command) of
                                (Raised e, fs') \<Rightarrow>
                                  (Inr None, eprint (UnexpectedError e) (s3\<lparr>files := fs'\<rparr>))
                              | (Completed returncode out err, fs') \<Rightarrow>
                                  (let s4 = s3\<lparr>files := fs'\<rparr>
                                   in if returncode \<noteq> 0
                                      then (Inr None,
                                            foldl (\<lambda>st d. eprint d st) s4
                                              ([EncodingError returncode, FfmpegStderr err]
                                               @ encoding_hints err))
                                      else if path_exists (files s4) output_file
                                      then (case getsize (files s4) output_file of
                                              Inl e \<Rightarrow> (Inr None, eprint (UnexpectedError e) s4)
                                            | Inr output_size \<Rightarrow>
                                                if output_size > 1000000
                                                then (Inr (Some output_file), s4)
                                                else (Inr None,
                                                      eprint (OutputTooSmall output_size) s4))
                                      else (Inr None, eprint OutputNotCreated s4)))))))"

section \<open>Frame counting (\<^verbatim>\<open>vs_pipeline.py\<close>)\<close>

text \<open>
  Python floats are kept as the rationals they denote. Two builtins are parameters of
  the model: \<^verbatim>\<open>float(s)\<close> on a string (\<open>None\<close> for \<^verbatim>\<open>ValueError\<close>) and the rounding
  \<open>fl\<close> of an exact arithmetic result to the float that Python stores. Every float
  operation of the source is written as \<open>fl\<close> of the exact operation. Infinities and
  not-a-number are not modelled.
\<close>

record py_float =
  float_of_str :: "string \<Rightarrow> rat option"
  fl :: "rat \<Rightarrow> rat"

text \<open>\<^verbatim>\<open>int(x)\<close> on a float truncates towards zero.\<close>

definition py_trunc :: "rat \<Rightarrow> int" where
  "py_trunc x = (if x \<ge> 0 then \<lfloor>x\<rfloor> else \<lceil>x\<rceil>)"

definition quoted :: "string \<Rightarrow> string" where
  "quoted s = [CHR 0x22] @ s @ [CHR 0x22]"

definition nb_frames_cmd :: "string \<Rightarrow> command" where
  "nb_frames_cmd input_file =
     Shell (''ffprobe -v error -select_streams v:0 '' @ ''-show_entries stream=nb_frames ''
            @ ''-of default=noprint_wrappers=1:nokey=1 '' @ quoted input_file)"

definition duration_cmd :: "string \<Rightarrow> command" where
  "duration_cmd input_file =
     Shell (''ffprobe -v error '' @ ''-show_entries format=duration ''
            @ ''-of default=noprint_wrappers=1:nokey=1 '' @ quoted input_file)"

definition fr_cmd :: "string \<Rightarrow> command" where
  "fr_cmd input_file =
     Shell (''ffprobe -v error -select_streams v:0 '' @ ''-show_entries stream=r_frame_rate ''
            @ ''-of default=noprint_wrappers=1:nokey=1 '' @ quoted input_file)"

text \<open>
  The frame rate string: \<^verbatim>\<open>num, den = map(int, fr_str.split('/'))\<close> followed by
  \<^verbatim>\<open>num/den\<close> when it holds a slash, \<^verbatim>\<open>float(fr_str)\<close> otherwise.
\<close>

definition parse_frame_rate :: "py_float \<Rightarrow> string \<Rightarrow> py_exception + rat" where
  "parse_frame_rate P fr_str =
     (if CHR ''/'' \<in> set fr_str then
        (case split_on CHR ''/'' fr_str of
           [a, b] \<Rightarrow>
             (case py_int a of
                Inl e \<Rightarrow> Inl e
              | Inr num \<Rightarrow>
                  (case py_int b of
                     Inl e \<Rightarrow> Inl e
                   | Inr den \<Rightarrow>
                       if den = 0 then Inl ZeroDivisionError
                       else Inr (fl P (of_int num / of_int den))))
         | _ \<Rightarrow> Inl ValueError)
      else (case float_of_str P fr_str of None \<Rightarrow> Inl ValueError | Some x \<Rightarrow> Inr x))"

text \<open>The body of the \<^verbatim>\<open>try\<close> block of \<^verbatim>\<open>get_frame_count\<close>.\<close>

definition frame_count_probe :: "tools \<Rightarrow> py_float \<Rightarrow> state \<Rightarrow> string \<Rightarrow> (py_exception + int) \<times> state" where
  "frame_count_probe T P s input_file =
     (let s1 = call (nb_frames_cmd input_file) s
      in case probe T (files s1) (nb_frames_cmd input_file) of
           Raised e \<Rightarrow> (Inl e, s1)
         | Completed returncode out err \<Rightarrow>
             (let stdout = strip out
              in if returncode = 0 \<and> isdigit stdout
                 then (let frame_count = int (nat_of_digits stdout)
                       in (Inr frame_count, log_message (FrameCountMetadata frame_count) s1))
                 else
                   (let s2 = call (duration_cmd input_file) s1
                    in case probe T (files s2) (duration_cmd input_file) of
                         Raised e \<Rightarrow> (Inl e, s2)
                       | Completed rc2 dur_out err2 \<Rightarrow>
                           (case float_of_str P (strip dur_out) of
                              None \<Rightarrow> (Inl ValueError, s2)
                            | Some duration \<Rightarrow>
                                (let s3 = call (fr_cmd input_file) s2
                                 in case probe T (files s3) (fr_cmd input_file) of
                                      Raised e \<Rightarrow> (Inl e, s3)
                                    | Completed rc3 fr_out err3 \<Rightarrow>
                                        (case parse_frame_rate P (strip fr_out) of
                                           Inl e \<Rightarrow> (Inl e, s3)
                                         | Inr fr \<Rightarrow>
                                             (let frame_count = py_trunc (fl P (duration * fr))
                                              in (Inr frame_count,
                                                  log_message (FrameCountEstimated frame_count)
                                                    s3))))))))"

text \<open>
  The \<^verbatim>\<open>except\<close> handler of \<^verbatim>\<open>get_frame_count\<close>: the size in mebibytes, times
  \<^verbatim>\<open>8 * 1024 * 1024\<close>, divided by \<^verbatim>\<open>20_000_000 / 25\<close>, truncated. \<^verbatim>\<open>os.path.getsize\<close>
  raises from inside the handler when the file is missing.
\<close>

definition frame_count_fallback :: "py_float \<Rightarrow> state \<Rightarrow> string \<Rightarrow> py_exception \<Rightarrow> (py_exception + int) \<times> state" where
  "frame_count_fallback P s input_file e =
     (case getsize (files s) input_file of
        Inl e' \<Rightarrow> (Inl e', s)
      | Inr sz \<Rightarrow>
          (let file_size = fl P (of_nat sz / (1024 * 1024));
               bits = fl P (fl P (fl P (file_size * 8) * 1024) * 1024);
               per_frame = fl P (20000000 / 25)
           in if per_frame = 0 then (Inl ZeroDivisionError, s)
              else (let estimated = py_trunc (fl P (bits / per_frame))
                    in (Inr estimated, log_message (FrameCountFallback estimated e) s))))"

definition get_frame_count :: "tools \<Rightarrow> py_float \<Rightarrow> state \<Rightarrow> string \<Rightarrow> (py_exception + int) \<times> state" where
  "get_frame_count T P s input_file =
     (case frame_count_probe T P s input_file of
        (Inr frame_count, s') \<Rightarrow> (Inr frame_count, s')
      | (Inl e, s') \<Rightarrow> frame_count_fallback P s' input_file e)"

section \<open>Running the filter pipeline and verifying its output\<close>

definition digit_char :: "nat \<Rightarrow> char" where
  "digit_char n = ''0123456789'' ! (n mod 10)"

fun string_of_nat :: "nat \<Rightarrow> string" where
  "string_of_nat n =
     (if n < 10 then [digit_char n] else string_of_nat (n div 10) @ [digit_char n])"

definition string_of_int :: "int \<Rightarrow> string" where
  "string_of_int i = (if i < 0 then CHR ''-'' # string_of_nat (nat (- i)) else string_of_nat (nat i))"

fun join_spaces :: "string list \<Rightarrow> string" where
  "join_spaces [] = []"
| "join_spaces [x] = x"
| "join_spaces (x # y # ys) = x @ '' '' @ join_spaces (y # ys)"

definition vspipe_args :: "config \<Rightarrow> state \<Rightarrow> string list" where
  "vspipe_args cfg s =
     [''vspipe'', ''-a'', ''input_file='' @ ctx_input_file s, ''upscale.vpy'']
     @ (if TEST_MODE cfg then [''-s'', ''0'', ''-e'', string_of_int (TEST_FRAME_COUNT cfg - 1)]
        else if ctx_frame_count s \<noteq> 0 \<and> ctx_frame_count s > 0
        then [''-s'', ''0'', ''-e'', string_of_int (ctx_frame_count s - 1)]
        else [])
     @ [''-'']"

definition ffmpeg_cmd :: "state \<Rightarrow> string" where
  "ffmpeg_cmd s =
     ''ffmpeg -f rawvideo -pix_fmt yuv422p10le -s 3840x2160 -r 25/1 -i - ''
     @ ''-c:v prores_ks -profile:v 3 -pix_fmt yuv422p10le ''
     @ ''-color_range tv -color_primaries 12 -color_trc 11 -colorspace 12 ''
     @ ''-video_track_timescale 25 -y '' @ quoted (ctx_output_file s)"

definition pipeline_cmd :: "config \<Rightarrow> state \<Rightarrow> string" where
  "pipeline_cmd cfg s =
     join_spaces (map (\<lambda>arg. if CHR '' '' \<in> set arg then quoted arg else arg) (vspipe_args cfg s))
     @ '' | '' @ ffmpeg_cmd s"

text \<open>
  \<^verbatim>\<open>build_and_execute_command\<close> starts the two-stage pipeline through the process
  manager, waits for it and reports whether it returned zero. A pipeline that cannot
  be started counts as a failure. The progress thread that runs meanwhile is modelled
  on its own below.
\<close>

definition build_and_execute_command :: "tools \<Rightarrow> config \<Rightarrow> state \<Rightarrow> bool \<times> state" where
  "build_and_execute_command T cfg s =
     (let cmd = pipeline_cmd cfg s;
          s1 = log_message (ProcessingCommand cmd) (s\<lparr>ctx_cmd := cmd\<rparr>);
          s2 = call (Shell cmd) s1
      in case encode T (files s2) (Shell cmd) of
           (Raised e, fs') \<Rightarrow>
             (False, log_message FailedToStart (s2\<lparr>files := fs', ctx_has_process := False\<rparr>))
         | (Completed returncode out err, fs') \<Rightarrow>
             (returncode = 0, s2\<lparr>files := fs', ctx_has_process := True\<rparr>))"

definition verify_duration_cmd :: "string \<Rightarrow> command" where
  "verify_duration_cmd output_file =
     Shell (''ffprobe -v error -show_entries format=duration ''
            @ ''-of default=noprint_wrappers=1:nokey=1 '' @ quoted output_file)"

definition verify_output_quality :: "tools \<Rightarrow> py_float \<Rightarrow> state \<Rightarrow> (py_exception + bool) \<times> state" where
  "verify_output_quality T P s =
     (if \<not> path_exists (files s) (ctx_output_file s)
      then (Inr False, log_message VerifyFileMissing s)
      else
        (case getsize (files s) (ctx_output_file s) of
           Inl e \<Rightarrow> (Inl e, s)
         | Inr file_size \<Rightarrow>
             if file_size < 1000000
             then (Inr False, log_message (VerifyFileTooSmall file_size) s)
             else
               (let probe_cmd = verify_duration_cmd (ctx_output_file s);
                    s1 = call probe_cmd s
                in case probe T (files s1) probe_cmd of
                     Raised e \<Rightarrow> (Inr False, log_message (VerifyError e) s1)
                   | Completed returncode out err \<Rightarrow>
                       if returncode = 0 \<and> strip out \<noteq> []
                       then (let duration_str = strip out
                             in if lower duration_str \<in> set [''n/a'', ''na'', []]
                                then (Inr True, log_message VerifyDurationUnavailable s1)
                                else (case float_of_str P duration_str of
                                        Some duration \<Rightarrow> (Inr True, log_message VerifyValid s1)
                                      | None \<Rightarrow>
                                          (Inr True,
                                           log_message (VerifyUnparsedDuration duration_str) s1)))
                       else (Inr False, log_message (VerifyProbeFailed returncode) s1))))"

definition color_probe_cmd :: "string \<Rightarrow> command" where
  "color_probe_cmd output_file =
     Shell (''ffprobe -v error -select_streams v:0 ''
            @ ''-show_entries stream=color_primaries,color_trc,colorspace,color_range ''
            @ ''-of default=noprint_wrappers=1 '' @ quoted output_file)"

definition expected_primaries :: "string list" where
  "expected_primaries = [''smpte432'', ''12'']"

definition expected_trc :: "string list" where
  "expected_trc = [''smpte428'', ''11'']"

definition expected_colorspace :: "string list" where
  "expected_colorspace = [''smpte432'', ''12'']"

text \<open>A tag matches when its lower-cased value contains one of the accepted aliases.\<close>

definition tag_ok :: "string list \<Rightarrow> dict \<Rightarrow> string \<Rightarrow> bool" where
  "tag_ok expected color_info key =
     list_ex (\<lambda>exp. str_in exp (lower (dict_get color_info key []))) expected"

definition verify_color_space :: "tools \<Rightarrow> state \<Rightarrow> bool \<times> state" where
  "verify_color_space T s =
     (if \<not> path_exists (files s) (ctx_output_file s)
      then (False, log_message ColorFileMissing s)
      else
        (let probe_cmd = color_probe_cmd (ctx_output_file s);
             s1 = call probe_cmd s
         in case probe T (files s1) probe_cmd of
              Raised e \<Rightarrow> (False, log_message (ColorError e) s1)
            | Completed returncode out err \<Rightarrow>
                if returncode = 0
                then (let color_info = parse_key_values out;
                          s2 = log_message (ColorInfo color_info) s1;
                          primaries_ok = tag_ok expected_primaries color_info ''color_primaries'';
                          trc_ok = tag_ok expected_trc color_info ''color_trc'';
                          colorspace_ok = tag_ok expected_colorspace color_info ''colorspace''
                      in if primaries_ok \<and> trc_ok \<and> colorspace_ok
                         then (True, log_message ColorProper s2)
                         else (False, log_message ColorImproper s2))
                else (False, log_message (ColorProbeFailed returncode) s1)))"

section \<open>One job and the batch loop\<close>

text \<open>
  The first statements of \<^verbatim>\<open>process_single_file\<close>: the per-file fields of the context
  are reset and the start of the job is logged.
\<close>

definition start_job :: "state \<Rightarrow> string \<Rightarrow> state" where
  "start_job s input_file_path =
     log_message (StartingProcessing (basename input_file_path))
       (s\<lparr>ctx_input_file := input_file_path,
          ctx_output_file := get_output_filename input_file_path (ctx_output_dir s),
          ctx_current_frame := 0,
          ctx_frame_count := 0,
          ctx_vapoursynth_started := False,
          ctx_processing_task_created := False,
          ctx_last_frame_time := None,
          ctx_last_frame_count := 0\<rparr>)"

text \<open>
  The statements of \<^verbatim>\<open>process_single_file\<close> inside its \<^verbatim>\<open>try\<close>: \<open>Inl e\<close> is an
  exception on its way to the handler, \<open>Inr b\<close> a returned verdict.
\<close>

definition process_steps :: "tools \<Rightarrow> py_float \<Rightarrow> config \<Rightarrow> state \<Rightarrow> string \<Rightarrow> (py_exception + bool) \<times> state" where
  "process_steps T P cfg s input_file_path =
     (let s0 = start_job s input_file_path
      in case should_skip_file cfg (files s0) input_file_path (ctx_output_file s0) of
           Inl e \<Rightarrow> (Inl e, s0)
         | Inr True \<Rightarrow> (Inr True, log_message (Skipping (basename input_file_path)) s0)
         | Inr False \<Rightarrow>
             (let s1 = log_message (Rewrapping (basename input_file_path)) s0
              in case rewrap_to_prores T s1 input_file_path (ctx_output_dir s1) of
                   (Inl e, s2) \<Rightarrow> (Inl e, s2)
                 | (Inr rewrapped_file, s2) \<Rightarrow>
                     if rewrapped_file = None \<or> rewrapped_file = Some []
                     then (Inr False, log_message (FailedToRewrap (basename input_file_path)) s2)
                     else
                       (let s3 = s2\<lparr>ctx_input_file := the rewrapped_file\<rparr>
                        in case get_frame_count T P s3 (ctx_input_file s3) of
                             (Inl e, s4) \<Rightarrow> (Inl e, s4)
                           | (Inr frame_count, s4) \<Rightarrow>
                               (let s5 = s4\<lparr>ctx_frame_count := frame_count\<rparr>
                                in case build_and_execute_command T cfg s5 of
                                     (False, s6) \<Rightarrow>
                                       (Inr False,
                                        log_message (FailedToProcess (basename input_file_path)) s6)
                                   | (True, s6) \<Rightarrow>
                                       (case verify_output_quality T P s6 of
                                          (Inl e, s7) \<Rightarrow> (Inl e, s7)
                                        | (Inr True, s7) \<Rightarrow>
                                            (let s8 = log_message
                                                        (SuccessfullyProcessed
                                                           (basename input_file_path)) s7
                                             in case verify_color_space T s8 of
                                                  (True, s9) \<Rightarrow>
                                                    (Inr True, log_message ColorSpaceMaintained s9)
                                                | (False, s9) \<Rightarrow> (Inr True, s9))
                                        | (Inr False, s7) \<Rightarrow>
                                            (Inr False,
                                             log_message
                                               (OutputVerificationFailed
                                                  (basename input_file_path)) s7))))))"

text \<open>
  \<^verbatim>\<open>process_single_file\<close>: any exception of the steps is caught at the job boundary,
  logged, and turned into the verdict \<^verbatim>\<open>False\<close>.
\<close>

definition process_single_file :: "tools \<Rightarrow> py_float \<Rightarrow> config \<Rightarrow> state \<Rightarrow> string \<Rightarrow> bool \<times> state" where
  "process_single_file T P cfg s input_file_path =
     (case process_steps T P cfg s input_file_path of
        (Inr verdict, s') \<Rightarrow> (verdict, s')
      | (Inl e, s') \<Rightarrow> (False, log_message (ErrorProcessing (basename input_file_path) e) s'))"

text \<open>
  The loop of \<^verbatim>\<open>main\<close> over \<^verbatim>\<open>context.files_to_process\<close> with its two counters, and
  the numbers of the final summary. The per-file verdict is logged in the branch that
  draws the progress bars and printed otherwise.
\<close>

record batch_summary =
  total_files :: nat
  successful_files :: nat
  failed_files :: nat

fun process_files :: "tools \<Rightarrow> py_float \<Rightarrow> config \<Rightarrow> string list \<Rightarrow> state \<times> nat \<times> nat \<Rightarrow> state \<times> nat \<times> nat" where
  "process_files T P cfg [] acc = acc"
| "process_files T P cfg (file_path # rest) (s, successful, failed) =
     (case process_single_file T P cfg s file_path of
        (True, s') \<Rightarrow>
          process_files T P cfg rest
            (if BATCH_MODE cfg \<and> RICH_AVAILABLE cfg
             then log_message (BatchFileOk (basename file_path)) s' else s',
             successful + 1, failed)
      | (False, s') \<Rightarrow>
          process_files T P cfg rest
            (if BATCH_MODE cfg \<and> RICH_AVAILABLE cfg
             then log_message (BatchFileFailed (basename file_path)) s' else s',
             successful, failed + 1))"

definition run_batch :: "tools \<Rightarrow> py_float \<Rightarrow> config \<Rightarrow> state \<Rightarrow> string list \<Rightarrow> batch_summary \<times> state" where
  "run_batch T P cfg s files_to_process =
     (case process_files T P cfg files_to_process (s, 0, 0) of
        (s', successful, failed) \<Rightarrow>
          (\<lparr>total_files = length files_to_process,
            successful_files = successful,
            failed_files = failed\<rparr>, s'))"

section \<open>The progress monitor\<close>

text \<open>
  \<^verbatim>\<open>re.search(pattern, line, re.IGNORECASE)\<close> for the three frame patterns. A matcher
  tries the pattern at the start of its argument and returns the captured digits;
  \<open>re_search\<close> tries it at every position from the left. The character classes
  \<^verbatim>\<open>\s\<close> and \<^verbatim>\<open>\d\<close> are disjoint, so the greedy match takes all the whitespace and
  then all the digits.
\<close>

fun re_search :: "(string \<Rightarrow> string option) \<Rightarrow> string \<Rightarrow> string option" where
  "re_search m [] = m []"
| "re_search m (c # cs) = (case m (c # cs) of Some g \<Rightarrow> Some g | None \<Rightarrow> re_search m cs)"

definition match_frame_eq :: "string \<Rightarrow> string option" where
  "match_frame_eq s =
     (if lower (take 6 s) = ''frame=''
      then (let g = takeWhile py_isdigit (dropWhile py_isspace (drop 6 s))
            in if g = [] then None else Some g)
      else None)"

definition match_output_frames :: "string \<Rightarrow> string option" where
  "match_output_frames s =
     (if lower (take 7 s) = ''output ''
      then (let g = takeWhile py_isdigit (drop 7 s)
            in if g \<noteq> [] \<and> lower (take 7 (drop (7 + length g) s)) = '' frames''
               then Some g else None)
      else None)"

definition match_frames_in :: "string \<Rightarrow> string option" where
  "match_frames_in s =
     (let g = takeWhile py_isdigit s
      in if g \<noteq> [] \<and> lower (take 10 (drop (length g) s)) = '' frames in''
         then Some g else None)"

definition frame_patterns :: "(string \<Rightarrow> string option) list" where
  "frame_patterns = [match_frame_eq, match_output_frames, match_frames_in]"

text \<open>
  The body of \<^verbatim>\<open>if current_frame > context.current_frame\<close>: record the frame, derive
  the speed from the previous sample, and send the update to the per-file bar.
\<close>

definition accept_frame :: "config \<Rightarrow> state \<Rightarrow> rat \<Rightarrow> int \<Rightarrow> state" where
  "accept_frame cfg s current_time current_frame =
     (let s1 = s\<lparr>ctx_current_frame := current_frame\<rparr>;
          speed = (case ctx_last_frame_time s1 of
                     Some last_time \<Rightarrow>
                       (let time_diff = current_time - last_time;
                            frame_diff = current_frame - ctx_last_frame_count s1
                        in if time_diff > 0 \<and> frame_diff > 0
                           then Fps (of_int frame_diff / time_diff)
                           else Calculating)
                   | None \<Rightarrow> Starting);
          s2 = s1\<lparr>ctx_last_frame_time := Some current_time,
                  ctx_last_frame_count := current_frame\<rparr>;
          upd = (if TEST_MODE cfg
                 then \<lparr>completed = min current_frame (TEST_FRAME_COUNT cfg),
                       total = TEST_FRAME_COUNT cfg, speed_text = speed\<rparr>
                 else \<lparr>completed = current_frame,
                       total = (if ctx_frame_count s2 \<noteq> 0 then ctx_frame_count s2
                                else current_frame + 1000),
                       speed_text = speed\<rparr>)
      in s2\<lparr>progress_updates := progress_updates s2 @ [upd]\<rparr>)"

text \<open>
  The loop over \<^verbatim>\<open>frame_patterns\<close>: the first pattern that matches decides, and the
  loop ends there whether or not its number is accepted.
\<close>

fun try_patterns :: "config \<Rightarrow> state \<Rightarrow> rat \<Rightarrow> string \<Rightarrow> (string \<Rightarrow> string option) list \<Rightarrow> state" where
  "try_patterns cfg s current_time line [] = s"
| "try_patterns cfg s current_time line (pattern # rest) =
     (case re_search pattern line of
        None \<Rightarrow> try_patterns cfg s current_time line rest
      | Some g \<Rightarrow>
          (let current_frame = int (nat_of_digits g)
           in if current_frame > ctx_current_frame s
              then accept_frame cfg s current_time current_frame
              else s))"

definition startup_marker :: "string \<Rightarrow> bool" where
  "startup_marker line =
     (str_in ''[FORMAT]'' line \<or> str_in ''[SOURCE]'' line \<or>
      str_in ''FFmpegSource2 loaded successfully'' line \<or>
      str_in ''LSMASHSource loaded successfully'' line)"

definition monitor_line :: "config \<Rightarrow> state \<Rightarrow> rat \<Rightarrow> string \<Rightarrow> state" where
  "monitor_line cfg s current_time line =
     (let s1 = (if \<not> ctx_vapoursynth_started s \<and> startup_marker line
                then (let s' = s\<lparr>ctx_vapoursynth_started := True\<rparr>
                      in if DEBUG_MODE cfg then log_message (DebugVapourSynthDetected line) s'
                         else s')
                else s)
      in try_patterns cfg s1 current_time line frame_patterns)"

text \<open>
  What the monitor observes per line read from the diagnostic stream: the clock, the
  line, and whether the process has exited by the time it is polled.
\<close>

record line_event =
  ev_time :: rat
  ev_line :: string
  ev_exited :: bool

fun monitor_lines :: "config \<Rightarrow> state \<Rightarrow> line_event list \<Rightarrow> state" where
  "monitor_lines cfg s [] = s"
| "monitor_lines cfg s (ev # evs) =
     (if ev_line ev = [] then s
      else (let line = strip (ev_line ev)
            in if line = [] then monitor_lines cfg s evs
               else (let s1 = (if DEBUG_MODE cfg then log_message (DebugStderr line) s else s)
                     in if ev_exited ev then s1
                        else monitor_lines cfg (monitor_line cfg s1 (ev_time ev) line) evs)))"

definition monitor_progress :: "config \<Rightarrow> state \<Rightarrow> line_event list \<Rightarrow> state" where
  "monitor_progress cfg s evs =
     (let s0 = s\<lparr>ctx_current_frame := 0\<rparr>
      in if \<not> ctx_has_process s0 then log_message NoProcessToMonitor s0
         else if RICH_AVAILABLE cfg \<and> BATCH_MODE cfg
         then (if ctx_has_current_file_task s0 then monitor_lines cfg s0 evs else s0)
         else s0)"

section \<open>The watchdog\<close>

text \<open>
  \<^verbatim>\<open>ProcessWatchdog\<close>: its timing fields, and what one pass of its loop observes: whether
  the stop event is set, the clock at the start of the health check, whether the
  process has exited, the clock readings of \<^verbatim>\<open>reset_timer\<close> for each item drained
  from the output queue, and whether the process exits between the check and the
  cleanup.
\<close>

record watchdog =
  wd_timeout :: rat
  wd_check_interval :: rat
  wd_last_output_time :: rat
  wd_output_detected :: bool

record tick =
  tk_stop :: bool
  tk_now :: rat
  tk_exited :: bool
  tk_output :: "rat list"
  tk_exits_before_cleanup :: bool

definition watchdog_init :: "rat \<Rightarrow> rat \<Rightarrow> rat \<Rightarrow> watchdog" where
  "watchdog_init timeout check_interval now =
     \<lparr>wd_timeout = timeout, wd_check_interval = check_interval,
      wd_last_output_time = now, wd_output_detected = False\<rparr>"

definition reset_timer :: "watchdog \<Rightarrow> rat \<Rightarrow> watchdog" where
  "reset_timer w now = w\<lparr>wd_last_output_time := now, wd_output_detected := True\<rparr>"

definition check_process_health :: "watchdog \<Rightarrow> tick \<Rightarrow> bool \<times> watchdog" where
  "check_process_health w tk =
     (let current_time = tk_now tk
      in if tk_exited tk then (False, w)
         else (let w' = foldl reset_timer w (tk_output tk)
               in if current_time - wd_last_output_time w' > wd_timeout w'
                     \<and> wd_output_detected w'
                  then (False, w')
                  else (True, w')))"

text \<open>
  The result of the monitoring loop over the passes observed: still watching, stopped
  by the stop event, or the process declared frozen at a check, with whether the
  cleanup found it running and requested its termination.
\<close>

datatype watch_result = Watching | Stopped | DeclaredFrozen rat bool

definition cleanup_terminates :: "tick \<Rightarrow> bool" where
  "cleanup_terminates tk = (\<not> (tk_exited tk \<or> tk_exits_before_cleanup tk))"

fun watchdog_monitor :: "watchdog \<Rightarrow> tick list \<Rightarrow> watch_result \<times> watchdog" where
  "watchdog_monitor w [] = (Watching, w)"
| "watchdog_monitor w (tk # tks) =
     (if tk_stop tk then (Stopped, w)
      else (case check_process_health w tk of
              (False, w') \<Rightarrow> (DeclaredFrozen (tk_now tk) (cleanup_terminates tk), w')
            | (True, w') \<Rightarrow> watchdog_monitor w' tks))"

section \<open>A notion used in the proofs\<close>

text \<open>Two states belong to the same job when they agree on the output directory and
  on the output file of the job.\<close>

definition same_job :: "state \<Rightarrow> state \<Rightarrow> bool" where
  "same_job s s' = (ctx_output_dir s' = ctx_output_dir s \<and> ctx_output_file s' = ctx_output_file s)"

text \<open>The frame number a line carries for the progress monitor: the number captured by
  the first of the patterns that matches the line, as the loop of \<open>try_patterns\<close> finds
  it.\<close>

fun first_capture :: "string \<Rightarrow> (string \<Rightarrow> string option) list \<Rightarrow> int option" where
  "first_capture line [] = None"
| "first_capture line (pattern # rest) =
     (case re_search pattern line of
        None \<Rightarrow> first_capture line rest
      | Some g \<Rightarrow> Some (int (nat_of_digits g)))"

definition captured_frame :: "string \<Rightarrow> int option" where
  "captured_frame line = first_capture line frame_patterns"

text \<open>The state after the debug echo of a line (\<^verbatim>\<open>if DEBUG_MODE and line\<close>), and the
  relation between the state before a run of the monitor and the state after it that
  the induction over the lines maintains: the updates reported in between carry the
  accepted frame numbers, which increase strictly from the recorded frame index.\<close>

definition debug_logged :: "config \<Rightarrow> state \<Rightarrow> string \<Rightarrow> state" where
  "debug_logged cfg s line = (if DEBUG_MODE cfg then log_message (DebugStderr line) s else s)"

definition frames_inv :: "config \<Rightarrow> state \<Rightarrow> state \<Rightarrow> bool" where
  "frames_inv cfg s r =
     (\<exists>ns new. progress_updates r = progress_updates s @ new \<and>
            map completed new
              = map (\<lambda>n. if TEST_MODE cfg then min n (TEST_FRAME_COUNT cfg) else n) ns \<and>
            sorted_wrt (<) ns \<and>
            (\<forall>n\<in>set ns. ctx_current_frame s < n \<and> n \<le> ctx_current_frame r) \<and>
            ctx_current_frame s \<le> ctx_current_frame r)"

text \<open>A pass of the watchdog loop in which nothing happens: the stop event is not set,
  the process is running and the output queue is empty. Between two passes the loop
  calls \<^verbatim>\<open>time.sleep(self.check_interval)\<close>, so a health check reads the clock at
  least one check interval after the previous one (\<open>slept\<close>); how much later it can
  be is not fixed by the code, and \<open>gaps_within d\<close> says that it is at most \<open>d\<close>.\<close>

definition quiet :: "tick \<Rightarrow> bool" where
  "quiet tk = (\<not> tk_stop tk \<and> \<not> tk_exited tk \<and> tk_output tk = [])"

fun slept :: "rat \<Rightarrow> tick list \<Rightarrow> bool" where
  "slept check_interval (tk # tk' # tks) =
     (tk_now tk + check_interval \<le> tk_now tk' \<and> slept check_interval (tk' # tks))"
| "slept check_interval tks = True"

fun gaps_within :: "rat \<Rightarrow> tick list \<Rightarrow> bool" where
  "gaps_within d (tk # tk' # tks) = (tk_now tk' \<le> tk_now tk + d \<and> gaps_within d (tk' # tks))"
| "gaps_within d tks = True"

section \<open>Example inputs\<close>

text \<open>
  Concrete configurations, file systems and tools on which the theorems below are
  instantiated. The example float reads plain decimal numerals and computes exactly;
  the example prober answers every query with a fixed text, and the example encoders
  succeed and write the file named last on their command line.
\<close>

definition ex_config :: config where
  "ex_config = \<lparr>SKIP_EXISTING = True, TEST_MODE = False, TEST_FRAME_COUNT = 200,
                 BATCH_MODE = True, RICH_AVAILABLE = True, DEBUG_MODE = False\<rparr>"

definition ex_fs :: filesystem where
  "ex_fs = [''/in/a.avi'' \<mapsto> \<lparr>st_mtime = 100, st_size = 5000000\<rparr>,
            ''/out/a.mov'' \<mapsto> \<lparr>st_mtime = 200, st_size = 2000000\<rparr>]"

definition decimal_of_str :: "string \<Rightarrow> rat option" where
  "decimal_of_str s =
     (let t = strip s;
          (neg, body) = (case t of
                           c # cs \<Rightarrow> if c = CHR ''-'' then (True, cs)
                                     else if c = CHR ''+'' then (False, cs)
                                     else (False, t)
                         | [] \<Rightarrow> (False, t));
          ip = takeWhile py_isdigit body;
          rest = drop (length ip) body;
          fp = (case rest of
                  [] \<Rightarrow> Some []
                | c # cs \<Rightarrow> if c = CHR ''.'' then Some cs else None)
      in case fp of
           None \<Rightarrow> None
         | Some f \<Rightarrow>
             if list_all py_isdigit f \<and> (ip \<noteq> [] \<or> f \<noteq> [])
             then Some ((if neg then - 1 else 1) *
                        (of_nat (nat_of_digits ip) + of_nat (nat_of_digits f) / 10 ^ length f))
             else None)"

definition ex_float :: py_float where
  "ex_float = \<lparr>float_of_str = decimal_of_str, fl = (\<lambda>x. x)\<rparr>"

definition batch_fs :: filesystem where
  "batch_fs = [''/in/a.avi'' \<mapsto> \<lparr>st_mtime = 100, st_size = 5000000\<rparr>,
               ''/in/b.mov'' \<mapsto> \<lparr>st_mtime = 100, st_size = 6000000\<rparr>,
               ''/in/c.mp4'' \<mapsto> \<lparr>st_mtime = 100, st_size = 7000000\<rparr>,
               ''/out/b.mov'' \<mapsto> \<lparr>st_mtime = 200, st_size = 2000000\<rparr>]"

definition ex_state :: state where
  "ex_state = \<lparr>files = batch_fs, subprocess_calls = [], errs = [], logs = [],
                progress_updates = [], ctx_output_dir = ''/out'', ctx_input_file = [],
                ctx_output_file = [], ctx_cmd = [], ctx_current_frame = 0,
                ctx_frame_count = 0, ctx_vapoursynth_started = False,
                ctx_processing_task_created = False, ctx_last_frame_time = None,
                ctx_last_frame_count = 0, ctx_has_process = True,
                ctx_has_current_file_task = True\<rparr>"

definition ex_info_out :: string where
  "ex_info_out = ''codec_name=prores\<newline>height=1080\<newline>field_order=progressive\<newline>format_name=mov,mp4\<newline>''"

definition ex_color_out :: string where
  "ex_color_out = ''color_range=tv\<newline>colorspace=smpte432\<newline>color_trc=smpte428\<newline>color_primaries=smpte432\<newline>''"

definition ex_probe :: "string \<Rightarrow> filesystem \<Rightarrow> command \<Rightarrow> outcome" where
  "ex_probe color_out fs c =
     (case c of
        Argv args \<Rightarrow> Completed 0 ex_info_out []
      | Shell cmd \<Rightarrow>
          if startswith cmd ''ffprobe -v error -select_streams v:0 -show_entries stream=nb''
          then Completed 0 ''250\<newline>'' []
          else if startswith cmd ''ffprobe -v error -select_streams v:0 -show_entries stream=co''
          then Completed 0 color_out []
          else if startswith cmd ''ffprobe -v error -select_streams v:0 -show_entries stream=r_''
          then Completed 0 ''25/1\<newline>'' []
          else Completed 0 ''10.000000\<newline>'' [])"

definition shell_output :: "string \<Rightarrow> string" where
  "shell_output cmd = rev (takeWhile (\<lambda>c. c \<noteq> CHR 0x22) (drop 1 (rev cmd)))"

definition ex_encode :: "filesystem \<Rightarrow> command \<Rightarrow> outcome \<times> filesystem" where
  "ex_encode fs c =
     (case c of
        Argv args \<Rightarrow> (Completed 0 [] [], fs(last args \<mapsto> \<lparr>st_mtime = 300, st_size = 50000000\<rparr>))
      | Shell cmd \<Rightarrow>
          (Completed 0 [] [], fs(shell_output cmd \<mapsto> \<lparr>st_mtime = 400, st_size = 80000000\<rparr>)))"

definition ex_tools_with :: "string \<Rightarrow> tools" where
  "ex_tools_with color_out = \<lparr>probe = ex_probe color_out, encode = ex_encode\<rparr>"

definition ex_tools :: tools where
  "ex_tools = ex_tools_with ex_color_out"




text \<open>Tools that cannot be started, and a state holding a stale intermediate file.\<close>

definition ex_tools_no_ffprobe :: tools where
  "ex_tools_no_ffprobe = \<lparr>probe = (\<lambda>fs c. Raised OSError), encode = ex_encode\<rparr>"

definition ex_tools_no_ffmpeg :: tools where
  "ex_tools_no_ffmpeg = \<lparr>probe = ex_probe ex_color_out, encode = (\<lambda>fs c. (Raised OSError, fs))\<rparr>"

definition stale_state :: state where
  "stale_state = ex_state\<lparr>files := [''/in/a.avi'' \<mapsto> \<lparr>st_mtime = 100, st_size = 5000000\<rparr>,
                                     ''/out/a_prores.mov'' \<mapsto> \<lparr>st_mtime = 50, st_size = 5000000\<rparr>]\<rparr>"


text \<open>
  A prober that knows no frame count, one that knows nothing at all, and a state
  holding a file of 50,000 bytes.
\<close>

definition ex_tools_no_count :: tools where
  "ex_tools_no_count =
     \<lparr>probe = (\<lambda>fs c. if c = nb_frames_cmd ''/in/a.avi'' then Completed 0 ''N/A\<newline>'' []
                        else ex_probe ex_color_out fs c),
      encode = ex_encode\<rparr>"

definition ex_tools_na :: tools where
  "ex_tools_na = \<lparr>probe = (\<lambda>fs c. Completed 0 ''N/A\<newline>'' []), encode = ex_encode\<rparr>"

definition tiny_state :: state where
  "tiny_state = ex_state\<lparr>files := [''/in/tiny.avi'' \<mapsto> \<lparr>st_mtime = 100, st_size = 50000\<rparr>]\<rparr>"


text \<open>Two lines of the diagnostic stream, the second carrying a lower frame number
  than the first, and a stream that repeats a line.\<close>

definition out_of_order_lines :: "line_event list" where
  "out_of_order_lines =
     [\<lparr>ev_time = 1, ev_line = ''frame=  100 fps=25\<newline>'', ev_exited = False\<rparr>,
      \<lparr>ev_time = 2, ev_line = ''frame=   50 fps=25\<newline>'', ev_exited = False\<rparr>,
      \<lparr>ev_time = 3, ev_line = ''frame=  100 fps=25\<newline>'', ev_exited = False\<rparr>,
      \<lparr>ev_time = 4, ev_line = ''Output 120 frames in 4.80 seconds\<newline>'', ev_exited = False\<rparr>]"

text \<open>A watchdog with a timeout of 3 seconds and a check interval of 1 second, created
  at time 10; a quiet pass of its loop at a given time, and a pass that finds the
  process exited.\<close>

definition ex_watchdog :: watchdog where
  "ex_watchdog = watchdog_init 3 1 10"

definition quiet_tick :: "rat \<Rightarrow> tick" where
  "quiet_tick t = \<lparr>tk_stop = False, tk_now = t, tk_exited = False, tk_output = [],
                  tk_exits_before_cleanup = False\<rparr>"

definition exited_tick :: "rat \<Rightarrow> tick" where
  "exited_tick t = \<lparr>tk_stop = False, tk_now = t, tk_exited = True, tk_output = [],
                   tk_exits_before_cleanup = False\<rparr>"

section \<open>Auxiliary facts\<close>

subsection \<open>Paths\<close>

lemma after_last_none: "c \<notin> set xs \<Longrightarrow> rev (takeWhile (\<lambda>a. a \<noteq> c) (rev xs)) = xs"
  by (induction xs rule: rev_induct) auto

lemma after_last_some:
  "c \<notin> set suf \<Longrightarrow> takeWhile (\<lambda>a. a \<noteq> c) (rev suf @ c # ys) = rev suf"
  by (induction suf rule: rev_induct) auto

lemma basename_no_slash: "CHR ''/'' \<notin> set (basename p)"
proof (cases "CHR ''/'' \<in> set p")
  case True
  then obtain ys zs where "p = ys @ CHR ''/'' # zs" "CHR ''/'' \<notin> set zs"
    using split_list_last by fastforce
  then show ?thesis by (simp add: basename_def after_last_some)
next
  case False
  then show ?thesis by (simp add: basename_def after_last_none)
qed

lemma basename_append_no_slash:
  assumes "CHR ''/'' \<notin> set x" "pre = [] \<or> last pre = CHR ''/''"
  shows "basename (pre @ x) = x"
proof (cases "pre = []")
  case True
  then show ?thesis using assms(1) by (simp add: basename_def after_last_none)
next
  case False
  then have "pre = butlast pre @ [CHR ''/'']"
    using assms(2) by (metis append_butlast_last_id)
  then obtain ys where "pre = ys @ [CHR ''/'']" by blast
  then show ?thesis
    using assms(1) by (simp add: basename_def after_last_some)
qed

lemma dir_basename: "take (length p - length (basename p)) p @ basename p = p"
proof (cases "CHR ''/'' \<in> set p")
  case True
  then obtain ys zs where "p = ys @ CHR ''/'' # zs" "CHR ''/'' \<notin> set zs"
    using split_list_last by fastforce
  then show ?thesis by (simp add: basename_def after_last_some)
next
  case False
  then show ?thesis by (simp add: basename_def after_last_none)
qed

lemma splitext_parts:
  assumes "splitext p = (r, e)"
  shows "r @ e = p \<and> (e = [] \<or> hd e = CHR ''.'')"
proof (cases "CHR ''.'' \<in> set (basename p)")
  case False
  then have "splitext p = (p, [])"
    by (simp add: splitext_def Let_def after_last_none)
  then show ?thesis using assms by simp
next
  case True
  then obtain ys zs where n: "basename p = ys @ CHR ''.'' # zs" "CHR ''.'' \<notin> set zs"
    using split_list_last by fastforce
  have ext: "rev (takeWhile (\<lambda>c. c \<noteq> CHR ''.'') (rev (basename p))) = zs"
    using n by (simp add: after_last_some)
  have pre: "take (length (basename p) - length zs - 1) (basename p) = ys"
    using n by simp
  have "splitext p = (if list_all (\<lambda>c. c = CHR ''.'') ys then (p, [])
                      else (take (length p - length (basename p)) p @ ys, CHR ''.'' # zs))"
    unfolding splitext_def Let_def ext pre using n by simp
  moreover have "(take (length p - length (basename p)) p @ ys) @ CHR ''.'' # zs = p"
    using dir_basename [of p] n by simp
  ultimately show ?thesis using assms by (auto split: if_splits)
qed

lemma splitext_root_no_slash:
  assumes "CHR ''/'' \<notin> set b"
  shows "CHR ''/'' \<notin> set (fst (splitext b))"
proof -
  obtain r e where re: "splitext b = (r, e)" by (cases "splitext b")
  then have "r @ e = b" using splitext_parts by blast
  then have "set r \<subseteq> set b" by auto
  then show ?thesis using assms re by auto
qed

lemma join_basename:
  assumes "CHR ''/'' \<notin> set x" "x \<noteq> []"
  shows "basename (join d x) = x"
proof -
  have "\<not> startswith x ''/''" using assms by (cases x) auto
  then have "join d x = (if d = [] \<or> last d = CHR ''/'' then d @ x else (d @ ''/'') @ x)"
    by (simp add: join_def)
  then show ?thesis
    using assms(1) basename_append_no_slash [of x d] basename_append_no_slash [of x "d @ ''/''"]
    by (auto split: if_splits)
qed

lemma rewrap_output_file_differs: "rewrap_output_file source_file d \<noteq> source_file"
proof
  assume eq: "rewrap_output_file source_file d = source_file"
  obtain r e where re: "splitext (basename source_file) = (r, e)"
    by (cases "splitext (basename source_file)")
  have parts: "r @ e = basename source_file" "e = [] \<or> hd e = CHR ''.''"
    using splitext_parts [OF re] by auto
  have "CHR ''/'' \<notin> set r"
    using splitext_root_no_slash [OF basename_no_slash, of source_file] re by simp
  then have "CHR ''/'' \<notin> set (r @ ''_prores.mov'')" by simp
  then have "basename (join d (r @ ''_prores.mov'')) = r @ ''_prores.mov''"
    using join_basename by blast
  then have "basename source_file = r @ ''_prores.mov''"
    using eq re by (simp add: rewrap_output_file_def Let_def)
  then have "e = ''_prores.mov''" using parts(1) by simp
  then show False using parts(2) by simp
qed


lemma needs_rewrapping_True: "fst (needs_rewrapping f vi s) = True"
  by (simp add: needs_rewrapping_def Let_def)

lemma needs_rewrapping_state:
  "needs_rewrapping f vi s = (True, if falsy_info vi then eprint AnalysisWarning s else s)"
  by (simp add: needs_rewrapping_def Let_def)

lemma get_video_info_state:
  "snd (get_video_info T s f) =
     (case probe T (files s) (get_video_info_cmd f) of
        Raised e \<Rightarrow> call (get_video_info_cmd f) s
      | Completed rc out err \<Rightarrow>
          if rc \<noteq> 0
          then eprint (FfprobeStderr err) (eprint (VideoInfoError rc) (call (get_video_info_cmd f) s))
          else call (get_video_info_cmd f) s)"
  by (simp add: get_video_info_def Let_def call_def split: outcome.splits)

lemma files_call [simp]: "files (call c s) = files s"
  by (simp add: call_def)

lemma files_eprint [simp]: "files (eprint d s) = files s"
  by (simp add: eprint_def)

lemma files_log_message [simp]: "files (log_message m s) = files s"
  by (simp add: log_message_def)

lemma calls_eprint [simp]: "subprocess_calls (eprint d s) = subprocess_calls s"
  by (simp add: eprint_def)

lemma calls_log_message [simp]: "subprocess_calls (log_message m s) = subprocess_calls s"
  by (simp add: log_message_def)

lemma calls_call [simp]: "subprocess_calls (call c s) = subprocess_calls s @ [c]"
  by (simp add: call_def)

lemma get_video_info_files: "files (snd (get_video_info T s f)) = files s"
  by (simp add: get_video_info_state split: outcome.splits)


lemma rewrap_to_prores_unfold:
  assumes src: "path_exists (files s) f"
    and info: "fst (get_video_info T s f) = Inr vi"
    and dec: "interlace_decision vi = Inr (il, tff)"
    and enc: "encode T (files s) (Argv (rewrap_command f (rewrap_output_file f d) il tff)) = (oc, fs')"
  shows "\<exists>s3. subprocess_calls s3 =
                 subprocess_calls s @ [get_video_info_cmd f,
                                       Argv (rewrap_command f (rewrap_output_file f d) il tff)] \<and>
              files s3 = fs' \<and>
              rewrap_to_prores T s f d =
                (case oc of
                   Raised e \<Rightarrow> (Inr None, eprint (UnexpectedError e) s3)
                 | Completed rc so err \<Rightarrow>
                     if rc \<noteq> 0
                     then (Inr None,
                           foldl (\<lambda>st d. eprint d st) s3
                             ([EncodingError rc, FfmpegStderr err] @ encoding_hints err))
                     else (case fs' (rewrap_output_file f d) of
                             None \<Rightarrow> (Inr None, eprint OutputNotCreated s3)
                           | Some st \<Rightarrow>
                               if st_size st > 1000000
                               then (Inr (Some (rewrap_output_file f d)), s3)
                               else (Inr None, eprint (OutputTooSmall (st_size st)) s3)))"
proof -
  obtain s1 where gv: "get_video_info T s f = (Inr vi, s1)"
    using info by (cases "get_video_info T s f") auto
  have fs1: "files s1 = files s"
    using get_video_info_files [of T s f] gv by simp
  have c1: "subprocess_calls s1 = subprocess_calls s @ [get_video_info_cmd f]"
    using gv by (auto simp: get_video_info_def Let_def split: outcome.splits if_splits)
  define s2 where "s2 = (if falsy_info vi then eprint AnalysisWarning s1 else s1)"
  define s3 where "s3 = (call (Argv (rewrap_command f (rewrap_output_file f d) il tff)) s2)\<lparr>files := fs'\<rparr>"
  have "subprocess_calls s3 =
          subprocess_calls s @ [get_video_info_cmd f,
                                Argv (rewrap_command f (rewrap_output_file f d) il tff)]"
    by (simp add: s3_def s2_def c1)
  moreover have "files s3 = fs'" by (simp add: s3_def)
  moreover have "rewrap_to_prores T s f d =
                (case oc of
                   Raised e \<Rightarrow> (Inr None, eprint (UnexpectedError e) s3)
                 | Completed rc so err \<Rightarrow>
                     if rc \<noteq> 0
                     then (Inr None,
                           foldl (\<lambda>st d. eprint d st) s3
                             ([EncodingError rc, FfmpegStderr err] @ encoding_hints err))
                     else (case fs' (rewrap_output_file f d) of
                             None \<Rightarrow> (Inr None, eprint OutputNotCreated s3)
                           | Some st \<Rightarrow>
                               if st_size st > 1000000
                               then (Inr (Some (rewrap_output_file f d)), s3)
                               else (Inr None, eprint (OutputTooSmall (st_size st)) s3)))"
    using src gv dec enc fs1
    by (auto simp: rewrap_to_prores_def needs_rewrapping_state Let_def path_exists_def
                   getsize_def s3_def s2_def
             split: outcome.splits option.splits)
  ultimately show ?thesis by blast
qed

subsection \<open>Stages of a job\<close>

lemma same_job_refl [simp]: "same_job s s"
  by (simp add: same_job_def)

lemma same_job_trans: "same_job a b \<Longrightarrow> same_job b c \<Longrightarrow> same_job a c"
  by (simp add: same_job_def)

lemma same_job_call [simp]: "same_job s (call c s') = same_job s s'"
  by (simp add: same_job_def call_def)

lemma same_job_eprint [simp]: "same_job s (eprint d s') = same_job s s'"
  by (simp add: same_job_def eprint_def)

lemma same_job_log [simp]: "same_job s (log_message m s') = same_job s s'"
  by (simp add: same_job_def log_message_def)

lemma same_job_files [simp]: "same_job s (s'\<lparr>files := fs\<rparr>) = same_job s s'"
  by (simp add: same_job_def)

lemma same_job_eprints [simp]: "same_job s (foldl (\<lambda>st d. eprint d st) s' ds) = same_job s s'"
  by (induction ds arbitrary: s') auto

lemma files_eprints [simp]: "files (foldl (\<lambda>st d. eprint d st) s ds) = files s"
  by (induction ds arbitrary: s) auto

lemma get_video_info_same: "same_job s (snd (get_video_info T s f))"
  by (simp add: get_video_info_state split: outcome.splits)

lemma rewrap_same: "same_job s (snd (rewrap_to_prores T s f d))"
  using get_video_info_same [of s T f]
  by (auto simp: rewrap_to_prores_def needs_rewrapping_state Let_def
           split: prod.splits sum.splits outcome.splits option.splits bool.splits)

lemma frame_count_probe_same:
  "same_job s (snd (frame_count_probe T P s f)) \<and> files (snd (frame_count_probe T P s f)) = files s"
  by (auto simp: frame_count_probe_def Let_def split: outcome.splits option.splits sum.splits)

lemma get_frame_count_same:
  "same_job s (snd (get_frame_count T P s f)) \<and> files (snd (get_frame_count T P s f)) = files s"
  using frame_count_probe_same [of s T P f]
  by (auto simp: get_frame_count_def frame_count_fallback_def Let_def
           split: prod.splits sum.splits)

lemma build_same: "same_job s (snd (build_and_execute_command T cfg s))"
  by (auto simp: build_and_execute_command_def Let_def same_job_def log_message_def call_def
           split: prod.splits outcome.splits)

lemma verify_output_quality_same:
  "same_job s (snd (verify_output_quality T P s)) \<and>
   files (snd (verify_output_quality T P s)) = files s"
  by (auto simp: verify_output_quality_def Let_def split: sum.splits outcome.splits option.splits)

lemma verify_color_space_same:
  "same_job s (snd (verify_color_space T s)) \<and> files (snd (verify_color_space T s)) = files s"
  by (auto simp: verify_color_space_def Let_def split: outcome.splits)


lemma should_skip_file_total:
  "fs input_file = Some ist \<Longrightarrow>
     should_skip_file cfg fs input_file output_file =
       Inr (SKIP_EXISTING cfg \<and>
            (\<exists>ost. fs output_file = Some ost \<and> st_mtime ost > st_mtime ist \<and>
                   st_size ost > 1000000))"
  by (auto simp: should_skip_file_def path_exists_def getmtime_def getsize_def
           split: option.splits)

lemma frame_count_from_metadata:
  assumes "probe T (files s) (nb_frames_cmd f) = Completed 0 out err" "isdigit (strip out)"
  shows "fst (get_frame_count T P s f) = Inr (int (nat_of_digits (strip out)))"
  using assms by (simp add: get_frame_count_def frame_count_probe_def Let_def)

lemma build_result:
  assumes "encode T (files s) (Shell (pipeline_cmd cfg s)) = (oc, fs')"
  shows "fst (build_and_execute_command T cfg s) = (\<exists>so se. oc = Completed 0 so se) \<and>
         files (snd (build_and_execute_command T cfg s)) = fs'"
proof -
  have "pipeline_cmd cfg (s\<lparr>ctx_cmd := c\<rparr>) = pipeline_cmd cfg s" for c
    by (simp add: pipeline_cmd_def vspipe_args_def ffmpeg_cmd_def)
  then show ?thesis
    using assms
    by (auto simp: build_and_execute_command_def Let_def log_message_def call_def
             split: outcome.splits)
qed

lemma verify_output_quality_ok:
  assumes "files s (ctx_output_file s) = Some st" "st_size st \<ge> 1000000"
    and "probe T (files s) (verify_duration_cmd (ctx_output_file s)) = Completed 0 out err"
    and "strip out \<noteq> []"
  shows "fst (verify_output_quality T P s) = Inr True"
  using assms
  by (auto simp: verify_output_quality_def Let_def path_exists_def getsize_def
           split: option.splits)

lemma shell_output_pipeline:
  assumes "CHR 0x22 \<notin> set (ctx_output_file s)"
  shows "shell_output (pipeline_cmd cfg s) = ctx_output_file s"
proof -
  obtain pre where "pipeline_cmd cfg s = pre @ [CHR 0x22] @ ctx_output_file s @ [CHR 0x22]"
    by (simp add: pipeline_cmd_def ffmpeg_cmd_def quoted_def)
  then show ?thesis
    using assms by (simp add: shell_output_def after_last_some)
qed

lemma last_rewrap_command [simp]: "last (rewrap_command f out il tff) = out"
  by (simp add: rewrap_command_def)

lemma ex_info_parsed:
  "parse_key_values ex_info_out =
     [(''codec_name'', ''prores''), (''height'', ''1080''),
      (''field_order'', ''progressive''), (''format_name'', ''mov,mp4'')]"
  by (simp add: parse_key_values_def ex_info_out_def strip_def py_isspace_def split_once_def
                dict_set_def)

lemma ex_interlace:
  "interlace_decision (Some (parse_key_values ex_info_out)) = Inr (True, True)"
  by (simp add: ex_info_parsed interlace_decision_def falsy_info_def detect_interlacing_def
                py_int_def strip_def py_isspace_def isdigit_def py_isdigit_def
                nat_of_digits_def digit_val_def dict_get_def lower_def lower_char_def)

lemma ex_rewrap:
  assumes "files s f \<noteq> None"
  shows "fst (rewrap_to_prores (ex_tools_with c) s f d) = Inr (Some (rewrap_output_file f d)) \<and>
         files (snd (rewrap_to_prores (ex_tools_with c) s f d)) =
           (files s)(rewrap_output_file f d \<mapsto> \<lparr>st_mtime = 300, st_size = 50000000\<rparr>)"
proof -
  have 1: "path_exists (files s) f" using assms by (simp add: path_exists_def)
  have 2: "fst (get_video_info (ex_tools_with c) s f) = Inr (Some (parse_key_values ex_info_out))"
    by (simp add: get_video_info_def Let_def ex_tools_with_def ex_probe_def get_video_info_cmd_def)
  have 3: "encode (ex_tools_with c) (files s)
             (Argv (rewrap_command f (rewrap_output_file f d) True True))
           = (Completed 0 [] [],
              (files s)(rewrap_output_file f d \<mapsto> \<lparr>st_mtime = 300, st_size = 50000000\<rparr>))"
    by (simp add: ex_tools_with_def ex_encode_def)
  show ?thesis
    using rewrap_to_prores_unfold [OF 1 2 ex_interlace 3] by auto
qed

lemma rewrap_output_file_nonempty: "rewrap_output_file f d \<noteq> []"
  by (simp add: rewrap_output_file_def Let_def join_def)


lemma ex_probe_nb_frames:
  "probe (ex_tools_with c) fs (nb_frames_cmd f) = Completed 0 ''250\<newline>'' []"
  by (simp add: ex_tools_with_def ex_probe_def nb_frames_cmd_def)

lemma ex_probe_verify_duration:
  "probe (ex_tools_with c) fs (verify_duration_cmd f) = Completed 0 ''10.000000\<newline>'' []"
  by (simp add: ex_tools_with_def ex_probe_def verify_duration_cmd_def)

lemma ex_frame_count: "fst (get_frame_count (ex_tools_with c) P s f) = Inr 250"
proof -
  have "isdigit (strip ''250\<newline>'')" "int (nat_of_digits (strip ''250\<newline>'')) = 250"
    by (simp_all add: strip_def py_isspace_def isdigit_def py_isdigit_def nat_of_digits_def
                      digit_val_def)
  then show ?thesis
    using frame_count_from_metadata [of "ex_tools_with c" s f "''250\<newline>''" "[]" P]
          ex_probe_nb_frames [of c "files s" f]
    by simp
qed

lemma start_job_fields [simp]:
  "files (start_job s f) = files s"
  "ctx_output_dir (start_job s f) = ctx_output_dir s"
  "ctx_output_file (start_job s f) = get_output_filename f (ctx_output_dir s)"
  "subprocess_calls (start_job s f) = subprocess_calls s"
  by (simp_all add: start_job_def log_message_def)

lemma ctx_log_message [simp]:
  "ctx_output_dir (log_message m s) = ctx_output_dir s"
  "ctx_output_file (log_message m s) = ctx_output_file s"
  by (simp_all add: log_message_def)

lemma process_skipped:
  assumes "should_skip_file cfg (files s) f (get_output_filename f (ctx_output_dir s)) = Inr True"
  shows "process_single_file T P cfg s f = (True, log_message (Skipping (basename f)) (start_job s f))"
  using assms by (simp add: process_single_file_def process_steps_def Let_def)

lemma process_verified:
  assumes "should_skip_file cfg (files s) f (get_output_filename f (ctx_output_dir s)) = Inr False"
    and "rewrap_to_prores T (log_message (Rewrapping (basename f)) (start_job s f)) f
           (ctx_output_dir s) = (Inr (Some p), s2)"
    and "p \<noteq> []"
    and "get_frame_count T P (s2\<lparr>ctx_input_file := p\<rparr>) p = (Inr n, s4)"
    and "build_and_execute_command T cfg (s4\<lparr>ctx_frame_count := n\<rparr>) = (True, s6)"
    and "verify_output_quality T P s6 = (Inr True, s7)"
  shows "process_single_file T P cfg s f =
           (True,
            if fst (verify_color_space T (log_message (SuccessfullyProcessed (basename f)) s7))
            then log_message ColorSpaceMaintained
                   (snd (verify_color_space T
                           (log_message (SuccessfullyProcessed (basename f)) s7)))
            else snd (verify_color_space T
                        (log_message (SuccessfullyProcessed (basename f)) s7)))"
  using assms
  by (simp add: process_single_file_def process_steps_def Let_def split: prod.splits bool.splits)

lemma ex_chain:
  assumes inp: "files s f \<noteq> None"
    and nq: "CHR 0x22 \<notin> set (get_output_filename f (ctx_output_dir s))"
  shows "\<exists>s2 s4 s6 s7.
           rewrap_to_prores (ex_tools_with c)
             (log_message (Rewrapping (basename f)) (start_job s f)) f (ctx_output_dir s)
             = (Inr (Some (rewrap_output_file f (ctx_output_dir s))), s2) \<and>
           get_frame_count (ex_tools_with c) ex_float
             (s2\<lparr>ctx_input_file := rewrap_output_file f (ctx_output_dir s)\<rparr>)
             (rewrap_output_file f (ctx_output_dir s)) = (Inr 250, s4) \<and>
           build_and_execute_command (ex_tools_with c) cfg (s4\<lparr>ctx_frame_count := 250\<rparr>)
             = (True, s6) \<and>
           verify_output_quality (ex_tools_with c) ex_float s6 = (Inr True, s7) \<and>
           files s7 = (files s)
                        (rewrap_output_file f (ctx_output_dir s)
                           \<mapsto> \<lparr>st_mtime = 300, st_size = 50000000\<rparr>,
                         get_output_filename f (ctx_output_dir s)
                           \<mapsto> \<lparr>st_mtime = 400, st_size = 80000000\<rparr>) \<and>
           ctx_output_dir s7 = ctx_output_dir s \<and>
           ctx_output_file s7 = get_output_filename f (ctx_output_dir s)"
proof -
  let ?T = "ex_tools_with c"
  let ?dir = "ctx_output_dir s"
  let ?out = "get_output_filename f ?dir"
  let ?rw = "rewrap_output_file f ?dir"
  define s1 where "s1 = log_message (Rewrapping (basename f)) (start_job s f)"
  have s1: "files s1 = files s" "ctx_output_file s1 = ?out" "ctx_output_dir s1 = ?dir"
    by (simp_all add: s1_def)
  obtain s2 where rw: "rewrap_to_prores ?T s1 f ?dir = (Inr (Some ?rw), s2)"
    and fs2: "files s2 = (files s)(?rw \<mapsto> \<lparr>st_mtime = 300, st_size = 50000000\<rparr>)"
    and sj2: "same_job s1 s2"
    using ex_rewrap [of s1 f c ?dir] rewrap_same [of s1 ?T f ?dir] inp s1
    by (cases "rewrap_to_prores ?T s1 f ?dir") auto
  define s3 where "s3 = s2\<lparr>ctx_input_file := ?rw\<rparr>"
  obtain s4 where fc: "get_frame_count ?T ex_float s3 ?rw = (Inr 250, s4)"
    and fs4: "files s4 = files s3" and sj4: "same_job s3 s4"
    using ex_frame_count [of c ex_float s3 ?rw] get_frame_count_same [of s3 ?T ex_float ?rw]
    by (cases "get_frame_count ?T ex_float s3 ?rw") auto
  define s5 where "s5 = s4\<lparr>ctx_frame_count := 250\<rparr>"
  have s5: "ctx_output_file s5 = ?out" "ctx_output_dir s5 = ?dir"
           "files s5 = (files s)(?rw \<mapsto> \<lparr>st_mtime = 300, st_size = 50000000\<rparr>)"
    using sj2 sj4 s1 fs2 fs4 by (simp_all add: s5_def s3_def same_job_def)
  have "encode ?T (files s5) (Shell (pipeline_cmd cfg s5)) =
          (Completed 0 [] [], (files s5)(?out \<mapsto> \<lparr>st_mtime = 400, st_size = 80000000\<rparr>))"
    using shell_output_pipeline [of s5 cfg] nq s5
    by (simp add: ex_tools_with_def ex_encode_def)
  from build_result [OF this]
  obtain s6 where bd: "build_and_execute_command ?T cfg s5 = (True, s6)"
    and fs6: "files s6 = (files s5)(?out \<mapsto> \<lparr>st_mtime = 400, st_size = 80000000\<rparr>)"
    and sj6: "same_job s5 s6"
    using build_same [of s5 ?T cfg]
    by (cases "build_and_execute_command ?T cfg s5") auto
  have s6: "ctx_output_file s6 = ?out" "ctx_output_dir s6 = ?dir"
    using sj6 s5 by (simp_all add: same_job_def)
  have "fst (verify_output_quality ?T ex_float s6) = Inr True"
    using verify_output_quality_ok [of s6 "\<lparr>st_mtime = 400, st_size = 80000000\<rparr>" ?T
            "''10.000000\<newline>''" "[]" ex_float]
          fs6 s6 ex_probe_verify_duration [of c "files s6" ?out]
    by (simp add: strip_def py_isspace_def)
  then obtain s7 where vq: "verify_output_quality ?T ex_float s6 = (Inr True, s7)"
    and fs7: "files s7 = files s6" and sj7: "same_job s6 s7"
    using verify_output_quality_same [of s6 ?T ex_float]
    by (cases "verify_output_quality ?T ex_float s6") auto
  have "files s7 = (files s)(?rw \<mapsto> \<lparr>st_mtime = 300, st_size = 50000000\<rparr>,
                             ?out \<mapsto> \<lparr>st_mtime = 400, st_size = 80000000\<rparr>)"
       "ctx_output_dir s7 = ?dir" "ctx_output_file s7 = ?out"
    using fs7 fs6 s5 sj7 s6 by (simp_all add: same_job_def)
  then show ?thesis
    using rw fc bd vq unfolding s1_def s3_def s5_def by blast
qed

lemma ex_job:
  assumes inp: "files s f = Some ist"
    and nq: "CHR 0x22 \<notin> set (get_output_filename f (ctx_output_dir s))"
  shows "fst (process_single_file (ex_tools_with c) ex_float cfg s f) = True \<and>
         ctx_output_dir (snd (process_single_file (ex_tools_with c) ex_float cfg s f))
           = ctx_output_dir s \<and>
         files (snd (process_single_file (ex_tools_with c) ex_float cfg s f)) =
           (if should_skip_file cfg (files s) f (get_output_filename f (ctx_output_dir s))
                 = Inr True
            then files s
            else (files s)
                   (rewrap_output_file f (ctx_output_dir s)
                      \<mapsto> \<lparr>st_mtime = 300, st_size = 50000000\<rparr>,
                    get_output_filename f (ctx_output_dir s)
                      \<mapsto> \<lparr>st_mtime = 400, st_size = 80000000\<rparr>))"
proof -
  let ?T = "ex_tools_with c"
  let ?dir = "ctx_output_dir s"
  let ?out = "get_output_filename f ?dir"
  let ?rw = "rewrap_output_file f ?dir"
  obtain b where skip: "should_skip_file cfg (files s) f ?out = Inr b"
    using should_skip_file_total [of "files s" f ist] inp by simp
  show ?thesis
  proof (cases b)
    case True
    then show ?thesis
      using process_skipped [of cfg s f ?T ex_float] skip by simp
  next
    case False
    from ex_chain [of s f c cfg] inp nq
    obtain s2 s4 s6 s7 where ch:
      "rewrap_to_prores ?T (log_message (Rewrapping (basename f)) (start_job s f)) f ?dir
         = (Inr (Some ?rw), s2)"
      "get_frame_count ?T ex_float (s2\<lparr>ctx_input_file := ?rw\<rparr>) ?rw = (Inr 250, s4)"
      "build_and_execute_command ?T cfg (s4\<lparr>ctx_frame_count := 250\<rparr>) = (True, s6)"
      "verify_output_quality ?T ex_float s6 = (Inr True, s7)"
      and fin: "files s7 = (files s)(?rw \<mapsto> \<lparr>st_mtime = 300, st_size = 50000000\<rparr>,
                                   ?out \<mapsto> \<lparr>st_mtime = 400, st_size = 80000000\<rparr>)"
               "ctx_output_dir s7 = ?dir"
      by auto
    define s8 where "s8 = log_message (SuccessfullyProcessed (basename f)) s7"
    have cs: "files (snd (verify_color_space ?T s8)) = files s7"
             "ctx_output_dir (snd (verify_color_space ?T s8)) = ?dir"
      using verify_color_space_same [of s8 ?T] fin(2)
      by (simp_all add: s8_def same_job_def)
    have res: "process_single_file ?T ex_float cfg s f =
            (True, if fst (verify_color_space ?T s8)
                   then log_message ColorSpaceMaintained (snd (verify_color_space ?T s8))
                   else snd (verify_color_space ?T s8))"
      using process_verified [where cfg = cfg and s = s and f = f and T = ?T and p = ?rw
                                and ?s2.0 = s2 and P = ex_float and n = 250 and ?s4.0 = s4
                                and ?s6.0 = s6 and ?s7.0 = s7]
            rewrap_output_file_nonempty [of f ?dir] skip False ch
      by (simp add: s8_def)
    show ?thesis
      using res cs fin skip False by simp
  qed
qed

section \<open>The skip rule\<close>

text \<open>
  C1. For an input file that exists, \<^verbatim>\<open>should_skip_file\<close> returns \<^verbatim>\<open>True\<close> exactly when
  skip-existing is enabled, the output file exists, its modification time is strictly
  newer than the input's, and its size clears the floor, that is, exceeds 1,000,000
  bytes; the result is therefore a function of the flag and the three conditions.
  With skip-existing disabled it returns \<^verbatim>\<open>False\<close> whatever the file system holds.
\<close>

theorem should_skip_file_iff:
  assumes "fs input_file = Some ist"
  shows "should_skip_file cfg fs input_file output_file =
           Inr (SKIP_EXISTING cfg \<and>
                (\<exists>ost. fs output_file = Some ost \<and> st_mtime ost > st_mtime ist \<and>
                       st_size ost > 1000000)) \<and>
         (\<not> SKIP_EXISTING cfg \<longrightarrow>
            (\<forall>fs' input_file' output_file'.
               should_skip_file cfg fs' input_file' output_file' = Inr False))"
  using assms
  by (auto simp: should_skip_file_def path_exists_def getmtime_def getsize_def
           split: option.splits)

theorem should_skip_file_iff_witness:
  "should_skip_file ex_config ex_fs ''/in/a.avi'' ''/out/a.mov'' = Inr True \<and>
   should_skip_file (ex_config\<lparr>SKIP_EXISTING := False\<rparr>) ex_fs ''/in/a.avi'' ''/out/a.mov''
     = Inr False"
  using should_skip_file_iff [of ex_fs "''/in/a.avi''" "\<lparr>st_mtime = 100, st_size = 5000000\<rparr>"
          ex_config "''/out/a.mov''"]
        should_skip_file_iff [of ex_fs "''/in/a.avi''" "\<lparr>st_mtime = 100, st_size = 5000000\<rparr>"
          "ex_config\<lparr>SKIP_EXISTING := False\<rparr>" "''/out/a.mov''"]
  by (simp add: ex_config_def ex_fs_def)

section \<open>Interlace detection\<close>

text \<open>
  C6. When the probed height is an integer, \<^verbatim>\<open>detect_interlacing\<close> marks the video
  interlaced if the field-order string holds one of the indicators; the height
  heuristic (480, 576 or 1080 lines) decides only when it holds none. Top field first
  is returned except when the field-order string holds a bottom-first indicator
  (\<^verbatim>\<open>bb\<close> or \<^verbatim>\<open>bt\<close>) or the height is 480.
\<close>

theorem detect_interlacing_rule:
  assumes "(case map_of video_info ''height'' of None \<Rightarrow> Inr 0 | Some h \<Rightarrow> py_int h) = Inr height"
  shows "detect_interlacing video_info =
           Inr (let field_order = lower (dict_get video_info ''field_order'' [])
                in (if list_ex (\<lambda>indicator. str_in indicator field_order)
                         [''tt'', ''bb'', ''tb'', ''bt'']
                    then True
                    else height \<in> {480, 576, 1080},
                    \<not> (str_in ''bb'' field_order \<or> str_in ''bt'' field_order \<or> height = 480)))"
  using assms by (auto simp: detect_interlacing_def Let_def)

theorem detect_interlacing_rule_witness:
  "detect_interlacing [(''field_order'', ''tt''), (''height'', ''480'')] = Inr (True, False) \<and>
   detect_interlacing [(''field_order'', ''progressive''), (''height'', ''576'')] = Inr (True, True) \<and>
   detect_interlacing [(''field_order'', ''progressive''), (''height'', ''720'')] = Inr (False, True) \<and>
   detect_interlacing [(''field_order'', ''bb''), (''height'', ''1080'')] = Inr (True, False)"
proof -
  have h: "py_int ''480'' = Inr 480" "py_int ''576'' = Inr 576" "py_int ''720'' = Inr 720"
          "py_int ''1080'' = Inr 1080"
    by (simp_all add: py_int_def strip_def py_isspace_def isdigit_def py_isdigit_def
                      nat_of_digits_def digit_val_def)
  show ?thesis
    using detect_interlacing_rule [of "[(''field_order'', ''tt''), (''height'', ''480'')]" 480]
          detect_interlacing_rule [of "[(''field_order'', ''progressive''), (''height'', ''576'')]" 576]
          detect_interlacing_rule [of "[(''field_order'', ''progressive''), (''height'', ''720'')]" 720]
          detect_interlacing_rule [of "[(''field_order'', ''bb''), (''height'', ''1080'')]" 1080]
          h
    by (simp add: dict_get_def lower_def lower_char_def)
qed

section \<open>The rewrap planner never returns the source\<close>

text \<open>
  C5. For a source that exists and that the probe reports as QuickTime/MOV with a
  ProRes codec, \<^verbatim>\<open>needs_rewrapping\<close> returns \<^verbatim>\<open>True\<close> and \<^verbatim>\<open>rewrap_to_prores\<close> never
  returns the source path: any path it returns is the intermediate path
  \<^verbatim>\<open><stem>_prores.mov\<close> in the output directory, which differs from the source, was the
  target of the encoder call made last, and exists afterwards with more than 1,000,000
  bytes. When interlace detection succeeds and the encoder exits with zero leaving
  such a file, the intermediate path is what is returned.
\<close>

theorem rewrap_always_rewraps:
  assumes src: "path_exists (files s) source_file"
    and info: "fst (get_video_info T s source_file) = Inr (Some info)"
    and mov: "str_in ''mov'' (lower (dict_get info ''format_name'' [])) \<or>
              str_in ''quicktime'' (lower (dict_get info ''format_name'' []))"
    and prores: "str_in ''prores'' (lower (dict_get info ''codec_name'' []))"
  shows "fst (needs_rewrapping source_file (Some info) s') = True \<and>
         fst (rewrap_to_prores T s source_file d) \<noteq> Inr (Some source_file) \<and>
         (\<forall>p. fst (rewrap_to_prores T s source_file d) = Inr (Some p) \<longrightarrow>
            p = rewrap_output_file source_file d \<and> p \<noteq> source_file \<and>
            (\<exists>il tff. last (subprocess_calls (snd (rewrap_to_prores T s source_file d)))
                        = Argv (rewrap_command source_file p il tff)) \<and>
            (\<exists>st. files (snd (rewrap_to_prores T s source_file d)) p = Some st \<and>
                  st_size st > 1000000)) \<and>
         (\<forall>il tff out err fs' st.
            detect_interlacing info = Inr (il, tff) \<and>
            encode T (files s)
              (Argv (rewrap_command source_file (rewrap_output_file source_file d) il tff))
              = (Completed 0 out err, fs') \<and>
            fs' (rewrap_output_file source_file d) = Some st \<and> st_size st > 1000000 \<longrightarrow>
            fst (rewrap_to_prores T s source_file d)
              = Inr (Some (rewrap_output_file source_file d)))"
proof -
  let ?out = "rewrap_output_file source_file d"
  let ?r = "rewrap_to_prores T s source_file d"
  have ne: "info \<noteq> []"
    using mov by (auto simp: dict_get_def lower_def)
  then have dec: "interlace_decision (Some info) = detect_interlacing info"
    by (simp add: interlace_decision_def falsy_info_def)
  have A: "fst (needs_rewrapping source_file (Some info) s') = True"
    by (rule needs_rewrapping_True)
  have B: "fst ?r = Inr (Some p) \<longrightarrow>
            p = ?out \<and> p \<noteq> source_file \<and>
            (\<exists>il tff. last (subprocess_calls (snd ?r)) = Argv (rewrap_command source_file p il tff)) \<and>
            (\<exists>st. files (snd ?r) p = Some st \<and> st_size st > 1000000)" for p
  proof (cases "detect_interlacing info")
    case (Inl e)
    then have "fst ?r = Inl e"
      using src info dec
      by (cases "get_video_info T s source_file")
         (auto simp: rewrap_to_prores_def needs_rewrapping_state Let_def)
    then show ?thesis by simp
  next
    case (Inr dcs)
    obtain il tff where d2: "detect_interlacing info = Inr (il, tff)"
      using Inr by (cases dcs) auto
    obtain oc fs' where enc: "encode T (files s) (Argv (rewrap_command source_file ?out il tff)) = (oc, fs')"
      by (cases "encode T (files s) (Argv (rewrap_command source_file ?out il tff))")
    from rewrap_to_prores_unfold [OF src info _ enc] dec d2
    obtain s3 where s3: "subprocess_calls s3 =
                 subprocess_calls s @ [get_video_info_cmd source_file,
                                       Argv (rewrap_command source_file ?out il tff)]"
      "files s3 = fs'"
      "?r = (case oc of
                   Raised e \<Rightarrow> (Inr None, eprint (UnexpectedError e) s3)
                 | Completed rc so err \<Rightarrow>
                     if rc \<noteq> 0
                     then (Inr None,
                           foldl (\<lambda>st d. eprint d st) s3
                             ([EncodingError rc, FfmpegStderr err] @ encoding_hints err))
                     else (case fs' ?out of
                             None \<Rightarrow> (Inr None, eprint OutputNotCreated s3)
                           | Some st \<Rightarrow>
                               if st_size st > 1000000
                               then (Inr (Some ?out), s3)
                               else (Inr None, eprint (OutputTooSmall (st_size st)) s3)))"
      by auto
    show ?thesis
      using s3 rewrap_output_file_differs [of source_file d]
      by (auto split: outcome.splits option.splits if_splits)
  qed
  have C: "fst ?r \<noteq> Inr (Some source_file)"
    using B [of source_file] by blast
  have D: "detect_interlacing info = Inr (il, tff) \<and>
            encode T (files s) (Argv (rewrap_command source_file ?out il tff))
              = (Completed 0 out err, fs') \<and>
            fs' ?out = Some st \<and> st_size st > 1000000 \<longrightarrow>
            fst ?r = Inr (Some ?out)" for il tff out err fs' st
  proof
    assume h: "detect_interlacing info = Inr (il, tff) \<and>
            encode T (files s) (Argv (rewrap_command source_file ?out il tff))
              = (Completed 0 out err, fs') \<and>
            fs' ?out = Some st \<and> st_size st > 1000000"
    then have d2: "interlace_decision (Some info) = Inr (il, tff)" using dec by simp
    from rewrap_to_prores_unfold [OF src info d2, of d "Completed 0 out err" fs'] h
    show "fst ?r = Inr (Some ?out)" by auto
  qed
  show ?thesis using A B C D by blast
qed


theorem rewrap_always_rewraps_witness:
  "path_exists (files ex_state) ''/in/b.mov'' \<and>
   fst (get_video_info ex_tools ex_state ''/in/b.mov'')
     = Inr (Some [(''codec_name'', ''prores''), (''height'', ''1080''),
                  (''field_order'', ''progressive''), (''format_name'', ''mov,mp4'')]) \<and>
   fst (rewrap_to_prores ex_tools ex_state ''/in/b.mov'' ''/out'')
     = Inr (Some ''/out/b_prores.mov'')"
proof -
  let ?info = "[(''codec_name'', ''prores''), (''height'', ''1080''),
                (''field_order'', ''progressive''), (''format_name'', ''mov,mp4'')]"
  have src: "path_exists (files ex_state) ''/in/b.mov''"
    by (simp add: ex_state_def batch_fs_def path_exists_def)
  have info: "fst (get_video_info ex_tools ex_state ''/in/b.mov'') = Inr (Some ?info)"
    using ex_info_parsed
    by (simp add: get_video_info_def Let_def ex_tools_def ex_tools_with_def ex_probe_def
                  get_video_info_cmd_def)
  have mov: "str_in ''mov'' (lower (dict_get ?info ''format_name'' [])) \<or>
             str_in ''quicktime'' (lower (dict_get ?info ''format_name'' []))"
    by (simp add: dict_get_def lower_def lower_char_def)
  have prores: "str_in ''prores'' (lower (dict_get ?info ''codec_name'' []))"
    by (simp add: dict_get_def lower_def lower_char_def)
  have out: "rewrap_output_file ''/in/b.mov'' ''/out'' = ''/out/b_prores.mov''"
    by (simp add: rewrap_output_file_def basename_def splitext_def join_def Let_def)
  have det: "detect_interlacing ?info = Inr (True, True)"
    using ex_interlace by (simp add: ex_info_parsed interlace_decision_def falsy_info_def)
  have enc: "encode ex_tools (files ex_state)
               (Argv (rewrap_command ''/in/b.mov'' ''/out/b_prores.mov'' True True))
             = (Completed 0 [] [],
                (files ex_state)(''/out/b_prores.mov'' \<mapsto> \<lparr>st_mtime = 300, st_size = 50000000\<rparr>))"
    by (simp add: ex_tools_def ex_tools_with_def ex_encode_def)
  have "\<forall>il tff out err fs' st.
            detect_interlacing ?info = Inr (il, tff) \<and>
            encode ex_tools (files ex_state)
              (Argv (rewrap_command ''/in/b.mov'' (rewrap_output_file ''/in/b.mov'' ''/out'') il tff))
              = (Completed 0 out err, fs') \<and>
            fs' (rewrap_output_file ''/in/b.mov'' ''/out'') = Some st \<and> st_size st > 1000000 \<longrightarrow>
            fst (rewrap_to_prores ex_tools ex_state ''/in/b.mov'' ''/out'')
              = Inr (Some (rewrap_output_file ''/in/b.mov'' ''/out''))"
    using rewrap_always_rewraps [OF src info mov prores, where d = "''/out''" and s' = ex_state]
    by (elim conjE)
  from this [rule_format, of True True "[]" "[]"
               "(files ex_state)(''/out/b_prores.mov'' \<mapsto> \<lparr>st_mtime = 300, st_size = 50000000\<rparr>)"
               "\<lparr>st_mtime = 300, st_size = 50000000\<rparr>"]
  have "fst (rewrap_to_prores ex_tools ex_state ''/in/b.mov'' ''/out'')
              = Inr (Some ''/out/b_prores.mov'')"
    using det enc out by simp
  then show ?thesis using src info by simp
qed

section \<open>Failure modes of the rewrap stage\<close>

lemma errs_eprint: "errs (eprint d s) = errs s @ [d]"
  by (simp add: eprint_def)

lemma errs_eprints: "errs (foldl (\<lambda>st d. eprint d st) s ds) = errs s @ ds"
  by (induction ds arbitrary: s) (auto simp: eprint_def)

lemma rewrap_raises:
  assumes "path_exists (files s) f"
    and "fst (get_video_info T s f) = Inl e \<or>
         (\<exists>vi. fst (get_video_info T s f) = Inr vi \<and> interlace_decision vi = Inl e)"
  shows "fst (rewrap_to_prores T s f d) = Inl e"
  using assms
  by (cases "get_video_info T s f")
     (auto simp: rewrap_to_prores_def needs_rewrapping_state Let_def)

text \<open>
  C8, as stated, fails: with a source that exists and a stale intermediate file of
  5,000,000 bytes in place, a prober that cannot be started makes \<^verbatim>\<open>rewrap_to_prores\<close>
  raise instead of returning, and an encoder that cannot be started makes it return
  \<^verbatim>\<open>None\<close> although the source exists, no encoder exited with a non-zero code and the
  output artifact is present and large.
\<close>

theorem rewrap_failure_modes_counterexample:
  "path_exists (files stale_state) ''/in/a.avi'' \<and>
   files stale_state (rewrap_output_file ''/in/a.avi'' ''/out'')
     = Some \<lparr>st_mtime = 50, st_size = 5000000\<rparr> \<and>
   fst (rewrap_to_prores ex_tools_no_ffprobe stale_state ''/in/a.avi'' ''/out'') = Inl OSError \<and>
   fst (rewrap_to_prores ex_tools_no_ffmpeg stale_state ''/in/a.avi'' ''/out'') = Inr None \<and>
   files (snd (rewrap_to_prores ex_tools_no_ffmpeg stale_state ''/in/a.avi'' ''/out''))
     (rewrap_output_file ''/in/a.avi'' ''/out'') = Some \<lparr>st_mtime = 50, st_size = 5000000\<rparr>"
proof -
  have src: "path_exists (files stale_state) ''/in/a.avi''"
    by (simp add: stale_state_def path_exists_def)
  have out: "rewrap_output_file ''/in/a.avi'' ''/out'' = ''/out/a_prores.mov''"
    by (simp add: rewrap_output_file_def basename_def splitext_def join_def Let_def)
  have stale: "files stale_state ''/out/a_prores.mov'' = Some \<lparr>st_mtime = 50, st_size = 5000000\<rparr>"
    by (simp add: stale_state_def)
  have "fst (get_video_info ex_tools_no_ffprobe stale_state ''/in/a.avi'') = Inl OSError"
    by (simp add: get_video_info_def Let_def ex_tools_no_ffprobe_def)
  then have 1: "fst (rewrap_to_prores ex_tools_no_ffprobe stale_state ''/in/a.avi'' ''/out'')
                  = Inl OSError"
    using rewrap_raises [OF src] by blast
  have info: "fst (get_video_info ex_tools_no_ffmpeg stale_state ''/in/a.avi'')
                = Inr (Some (parse_key_values ex_info_out))"
    by (simp add: get_video_info_def Let_def ex_tools_no_ffmpeg_def ex_probe_def
                  get_video_info_cmd_def)
  have enc: "encode ex_tools_no_ffmpeg (files stale_state)
               (Argv (rewrap_command ''/in/a.avi'' (rewrap_output_file ''/in/a.avi'' ''/out'')
                        True True))
             = (Raised OSError, files stale_state)"
    by (simp add: ex_tools_no_ffmpeg_def)
  from rewrap_to_prores_unfold [OF src info ex_interlace enc]
  have 2: "fst (rewrap_to_prores ex_tools_no_ffmpeg stale_state ''/in/a.avi'' ''/out'') = Inr None"
    and 3: "files (snd (rewrap_to_prores ex_tools_no_ffmpeg stale_state ''/in/a.avi'' ''/out''))
              = files stale_state"
    by auto
  show ?thesis using src out stale 1 2 3 by simp
qed

text \<open>
  C8, amended. When the source file is missing, \<^verbatim>\<open>rewrap_to_prores\<close> returns \<^verbatim>\<open>None\<close> at
  once, reporting the missing source and starting no subprocess. When the source
  exists and neither the probe nor interlace detection raises, it returns \<^verbatim>\<open>None\<close>
  exactly when running the encoder raises (a non-zero exit, whose captured standard
  error is printed, or any other exception), or the encoder exits with zero and the
  output artifact is missing or not larger than 1,000,000 bytes; in every other such
  case it returns the output artifact's path. An exception raised by the probe or by
  interlace detection leaves the function.
\<close>

theorem rewrap_failure_modes:
  "(\<not> path_exists (files s) f \<longrightarrow>
      fst (rewrap_to_prores T s f d) = Inr None \<and>
      subprocess_calls (snd (rewrap_to_prores T s f d)) = subprocess_calls s \<and>
      errs (snd (rewrap_to_prores T s f d)) = errs s @ [SourceNotFound f]) \<and>
   (path_exists (files s) f \<and> fst (get_video_info T s f) = Inr vi \<and>
    interlace_decision vi = Inr (il, tff) \<and>
    encode T (files s) (Argv (rewrap_command f (rewrap_output_file f d) il tff)) = (oc, fs') \<longrightarrow>
      (fst (rewrap_to_prores T s f d) = Inr None \<longleftrightarrow>
         (\<exists>e. oc = Raised e) \<or> (\<exists>rc so se. oc = Completed rc so se \<and> rc \<noteq> 0) \<or>
         (case fs' (rewrap_output_file f d) of None \<Rightarrow> True | Some st \<Rightarrow> st_size st \<le> 1000000)) \<and>
      (fst (rewrap_to_prores T s f d) \<noteq> Inr None \<longrightarrow>
         fst (rewrap_to_prores T s f d) = Inr (Some (rewrap_output_file f d))) \<and>
      (\<forall>rc so se. oc = Completed rc so se \<and> rc \<noteq> 0 \<longrightarrow>
         FfmpegStderr se \<in> set (errs (snd (rewrap_to_prores T s f d))))) \<and>
   (path_exists (files s) f \<and>
    (fst (get_video_info T s f) = Inl e \<or>
     (\<exists>vi. fst (get_video_info T s f) = Inr vi \<and> interlace_decision vi = Inl e)) \<longrightarrow>
      fst (rewrap_to_prores T s f d) = Inl e)"
proof (intro conjI impI)
  assume "\<not> path_exists (files s) f"
  then have "rewrap_to_prores T s f d = (Inr None, eprint (SourceNotFound f) s)"
    by (simp add: rewrap_to_prores_def)
  then show "fst (rewrap_to_prores T s f d) = Inr None"
    and "subprocess_calls (snd (rewrap_to_prores T s f d)) = subprocess_calls s"
    and "errs (snd (rewrap_to_prores T s f d)) = errs s @ [SourceNotFound f]"
    by (simp_all add: eprint_def)
next
  assume h: "path_exists (files s) f \<and> fst (get_video_info T s f) = Inr vi \<and>
    interlace_decision vi = Inr (il, tff) \<and>
    encode T (files s) (Argv (rewrap_command f (rewrap_output_file f d) il tff)) = (oc, fs')"
  then obtain s3 where s3:
      "rewrap_to_prores T s f d =
                (case oc of
                   Raised e \<Rightarrow> (Inr None, eprint (UnexpectedError e) s3)
                 | Completed rc so err \<Rightarrow>
                     if rc \<noteq> 0
                     then (Inr None,
                           foldl (\<lambda>st d. eprint d st) s3
                             ([EncodingError rc, FfmpegStderr err] @ encoding_hints err))
                     else (case fs' (rewrap_output_file f d) of
                             None \<Rightarrow> (Inr None, eprint OutputNotCreated s3)
                           | Some st \<Rightarrow>
                               if st_size st > 1000000
                               then (Inr (Some (rewrap_output_file f d)), s3)
                               else (Inr None, eprint (OutputTooSmall (st_size st)) s3)))"
    using rewrap_to_prores_unfold [of s f T vi il tff d oc fs'] by blast
  show "fst (rewrap_to_prores T s f d) = Inr None \<longleftrightarrow>
         (\<exists>e. oc = Raised e) \<or> (\<exists>rc so se. oc = Completed rc so se \<and> rc \<noteq> 0) \<or>
         (case fs' (rewrap_output_file f d) of None \<Rightarrow> True | Some st \<Rightarrow> st_size st \<le> 1000000)"
    using s3 by (auto split: outcome.splits option.splits if_splits)
  show "fst (rewrap_to_prores T s f d) = Inr (Some (rewrap_output_file f d))"
    if "fst (rewrap_to_prores T s f d) \<noteq> Inr None"
    using s3 that by (auto split: outcome.splits option.splits if_splits)
  show "\<forall>rc so se. oc = Completed rc so se \<and> rc \<noteq> 0 \<longrightarrow>
         FfmpegStderr se \<in> set (errs (snd (rewrap_to_prores T s f d)))"
    using s3 by (auto simp: errs_eprints errs_eprint)
next
  assume "path_exists (files s) f \<and>
    (fst (get_video_info T s f) = Inl e \<or>
     (\<exists>vi. fst (get_video_info T s f) = Inr vi \<and> interlace_decision vi = Inl e))"
  then show "fst (rewrap_to_prores T s f d) = Inl e"
    using rewrap_raises by blast
qed


theorem rewrap_failure_modes_witness:
  "fst (rewrap_to_prores ex_tools ex_state ''/in/missing.avi'' ''/out'') = Inr None \<and>
   subprocess_calls (snd (rewrap_to_prores ex_tools ex_state ''/in/missing.avi'' ''/out'')) = [] \<and>
   fst (rewrap_to_prores ex_tools ex_state ''/in/a.avi'' ''/out'') = Inr (Some ''/out/a_prores.mov'') \<and>
   fst (rewrap_to_prores ex_tools_no_ffprobe ex_state ''/in/a.avi'' ''/out'') = Inl OSError"
proof -
  have missing: "\<not> path_exists (files ex_state) ''/in/missing.avi''"
    by (simp add: ex_state_def batch_fs_def path_exists_def)
  have src: "path_exists (files ex_state) ''/in/a.avi''"
    by (simp add: ex_state_def batch_fs_def path_exists_def)
  have out: "rewrap_output_file ''/in/a.avi'' ''/out'' = ''/out/a_prores.mov''"
    by (simp add: rewrap_output_file_def basename_def splitext_def join_def Let_def)
  have info: "fst (get_video_info ex_tools ex_state ''/in/a.avi'')
                = Inr (Some (parse_key_values ex_info_out))"
    by (simp add: get_video_info_def Let_def ex_tools_def ex_tools_with_def ex_probe_def
                  get_video_info_cmd_def)
  have enc: "encode ex_tools (files ex_state)
               (Argv (rewrap_command ''/in/a.avi'' (rewrap_output_file ''/in/a.avi'' ''/out'')
                        True True))
             = (Completed 0 [] [],
                (files ex_state)(''/out/a_prores.mov'' \<mapsto> \<lparr>st_mtime = 300, st_size = 50000000\<rparr>))"
    by (simp add: ex_tools_def ex_tools_with_def ex_encode_def out)
  have nop: "fst (get_video_info ex_tools_no_ffprobe ex_state ''/in/a.avi'') = Inl OSError"
    by (simp add: get_video_info_def Let_def ex_tools_no_ffprobe_def)
  show ?thesis
    using rewrap_failure_modes [of ex_state "''/in/missing.avi''" ex_tools "''/out''"]
          rewrap_failure_modes [of ex_state "''/in/a.avi''" ex_tools "''/out''"
            "Some (parse_key_values ex_info_out)" True True "Completed 0 [] []"
            "(files ex_state)(''/out/a_prores.mov'' \<mapsto> \<lparr>st_mtime = 300, st_size = 50000000\<rparr>)"]
          rewrap_failure_modes [of ex_state "''/in/a.avi''" ex_tools_no_ffprobe "''/out''"
            _ _ _ _ _ OSError]
          missing src info enc nop ex_interlace out
    by (simp add: ex_state_def)
qed

section \<open>Inputs that share a stem share their artifacts\<close>

lemma subprocess_calls_skipped:
  assumes "should_skip_file cfg (files s) f (get_output_filename f (ctx_output_dir s)) = Inr True"
  shows "subprocess_calls (snd (process_single_file T P cfg s f)) = subprocess_calls s"
  using process_skipped [OF assms, of T P] by simp

lemma calls_eprints [simp]:
  "subprocess_calls (foldl (\<lambda>st d. eprint d st) s ds) = subprocess_calls s"
  by (induction ds arbitrary: s) auto
















section \<open>The three tiers of frame counting\<close>

lemma split_on_no_sep: "sep \<notin> set b \<Longrightarrow> split_on sep b = [b]"
  by (induction b) auto

lemma split_on_one_sep:
  "sep \<notin> set a \<Longrightarrow> sep \<notin> set b \<Longrightarrow> split_on sep (a @ sep # b) = [a, b]"
  by (induction a) (auto simp: split_on_no_sep)

lemma parse_frame_rate_ratio:
  assumes "py_int a = Inr num" "py_int b = Inr den" "den \<noteq> 0"
    and "CHR ''/'' \<notin> set a" "CHR ''/'' \<notin> set b"
  shows "parse_frame_rate P (a @ ''/'' @ b) = Inr (fl P (of_int num / of_int den))"
  using assms by (simp add: parse_frame_rate_def split_on_one_sep)

lemma parse_frame_rate_decimal:
  assumes "CHR ''/'' \<notin> set x" "float_of_str P x = Some r"
  shows "parse_frame_rate P x = Inr r"
  using assms by (simp add: parse_frame_rate_def)

lemma frame_count_from_duration:
  assumes "probe T (files s) (nb_frames_cmd f) = Completed rc out err"
    and "\<not> (rc = 0 \<and> isdigit (strip out))"
    and "probe T (files s) (duration_cmd f) = Completed rc2 dout derr"
    and "float_of_str P (strip dout) = Some duration"
    and "probe T (files s) (fr_cmd f) = Completed rc3 fout ferr"
    and "parse_frame_rate P (strip fout) = Inr fr"
  shows "fst (get_frame_count T P s f) = Inr (py_trunc (fl P (duration * fr)))"
  using assms by (auto simp: get_frame_count_def frame_count_probe_def Let_def)

lemma py_trunc_floor: "0 \<le> x \<Longrightarrow> py_trunc x = \<lfloor>x\<rfloor>"
  by (simp add: py_trunc_def)

lemma frame_count_fallback_value:
  assumes "fst (frame_count_probe T P s f) = Inl e" "files s f = Some st" "fl P 800000 \<noteq> 0"
  shows "fst (get_frame_count T P s f) =
           Inr (py_trunc (fl P (fl P (fl P (fl P (fl P (of_nat (st_size st) / 1048576) * 8) * 1024)
                                        * 1024) / fl P 800000)))"
proof -
  obtain s' where p: "frame_count_probe T P s f = (Inl e, s')"
    using assms(1) by (cases "frame_count_probe T P s f") auto
  have "files s' = files s"
    using frame_count_probe_same [of s T P f] p by simp
  then show ?thesis
    using assms(2,3) p
    by (simp add: get_frame_count_def frame_count_fallback_def getsize_def Let_def)
qed

lemma frame_count_fallback_nonneg:
  assumes "fst (frame_count_probe T P s f) = Inl e" "files s f = Some st"
    and "\<forall>x. 0 \<le> x \<longrightarrow> 0 \<le> fl P x" "fl P 800000 \<noteq> 0"
  shows "\<exists>n. fst (get_frame_count T P s f) = Inr n \<and> 0 \<le> n"
proof -
  let ?a = "fl P (of_nat (st_size st) / 1048576)"
  let ?b = "fl P (fl P (fl P (?a * 8) * 1024) * 1024)"
  have sg: "0 \<le> x \<Longrightarrow> 0 \<le> fl P x" for x using assms(3) by blast
  have "0 \<le> ?a" by (rule sg) simp
  then have "0 \<le> fl P (?a * 8)" by (intro sg) simp
  then have "0 \<le> fl P (fl P (?a * 8) * 1024)" by (intro sg) simp
  then have b: "0 \<le> ?b" by (intro sg) simp
  have "0 \<le> fl P 800000" by (rule sg) simp
  then have "0 \<le> ?b / fl P 800000" using b by simp
  then have "0 \<le> fl P (?b / fl P 800000)" by (rule sg)
  then have "0 \<le> py_trunc (fl P (?b / fl P 800000))"
    by (simp add: py_trunc_def)
  then show ?thesis
    using frame_count_fallback_value [OF assms(1,2,4)] by simp
qed

lemma frame_count_fallback_exact:
  assumes "fst (frame_count_probe T P s f) = Inl e" "files s f = Some st" "\<forall>x. fl P x = x"
  shows "fst (get_frame_count T P s f) = Inr (int (st_size st div 100000))"
proof -
  have "fl P 800000 \<noteq> 0" using assms(3) by simp
  from frame_count_fallback_value [OF assms(1,2) this]
  have "fst (get_frame_count T P s f) = Inr (py_trunc (of_nat (st_size st) / 100000))"
    using assms(3) by simp
  moreover have "py_trunc (of_nat (st_size st) / 100000) = int (st_size st div 100000)"
    using floor_divide_of_nat_eq [of "st_size st" 100000, where ?'a = rat]
    by (simp add: py_trunc_def)
  ultimately show ?thesis by simp
qed


lemma ex_decimal_na: "decimal_of_str ''N/A'' = None"
  by (simp add: decimal_of_str_def strip_def py_isspace_def py_isdigit_def)

lemma ex_na_probe_raises:
  "fst (frame_count_probe ex_tools_na ex_float s f) = Inl ValueError"
  using ex_decimal_na
  by (simp add: frame_count_probe_def Let_def ex_tools_na_def ex_float_def strip_def
                py_isspace_def isdigit_def py_isdigit_def)

text \<open>
  C7, as stated, fails in its third tier: for a file of 50,000 bytes on which the
  probes report nothing usable, the size-based estimate is zero, which is not a
  positive integer.
\<close>

theorem get_frame_count_tiers_counterexample:
  "files tiny_state ''/in/tiny.avi'' = Some \<lparr>st_mtime = 100, st_size = 50000\<rparr> \<and>
   fst (frame_count_probe ex_tools_na ex_float tiny_state ''/in/tiny.avi'') = Inl ValueError \<and>
   fst (get_frame_count ex_tools_na ex_float tiny_state ''/in/tiny.avi'') = Inr 0"
proof -
  have f: "files tiny_state ''/in/tiny.avi'' = Some \<lparr>st_mtime = 100, st_size = 50000\<rparr>"
    by (simp add: tiny_state_def)
  have "\<forall>x. fl ex_float x = x" by (simp add: ex_float_def)
  from frame_count_fallback_exact [OF ex_na_probe_raises f this]
  show ?thesis using f ex_na_probe_raises by simp
qed

text \<open>
  C7, amended. \<^verbatim>\<open>get_frame_count\<close> returns the explicit per-stream frame count when the
  first probe exits with zero and prints digits only. Otherwise, when the duration and
  the frame rate (a ratio \<^verbatim>\<open>num/den\<close> with a non-zero denominator, or a decimal) both
  parse, it returns the float product of duration and frame rate truncated towards
  zero, which is its floor whenever the product is not negative. When the probing path
  raises and the file exists, it returns the size-based estimate, a non-negative
  integer (under any rounding that keeps signs and does not round 800000 to zero); in
  exact arithmetic the estimate is the size in bytes divided by 100,000, rounded down,
  so it is positive only from 100,000 bytes on.
\<close>

theorem get_frame_count_tiers:
  "(probe T (files s) (nb_frames_cmd f) = Completed 0 out err \<and> isdigit (strip out) \<longrightarrow>
      fst (get_frame_count T P s f) = Inr (int (nat_of_digits (strip out)))) \<and>
   (probe T (files s) (nb_frames_cmd f) = Completed rc out err \<and>
    \<not> (rc = 0 \<and> isdigit (strip out)) \<and>
    probe T (files s) (duration_cmd f) = Completed rc2 dout derr \<and>
    float_of_str P (strip dout) = Some duration \<and>
    probe T (files s) (fr_cmd f) = Completed rc3 fout ferr \<and>
    parse_frame_rate P (strip fout) = Inr fr \<longrightarrow>
      fst (get_frame_count T P s f) = Inr (py_trunc (fl P (duration * fr))) \<and>
      (0 \<le> fl P (duration * fr) \<longrightarrow> py_trunc (fl P (duration * fr)) = \<lfloor>fl P (duration * fr)\<rfloor>)) \<and>
   (py_int a = Inr num \<and> py_int b = Inr den \<and> den \<noteq> 0 \<and>
    CHR ''/'' \<notin> set a \<and> CHR ''/'' \<notin> set b \<longrightarrow>
      parse_frame_rate P (a @ ''/'' @ b) = Inr (fl P (of_int num / of_int den))) \<and>
   (CHR ''/'' \<notin> set x \<and> float_of_str P x = Some r \<longrightarrow> parse_frame_rate P x = Inr r) \<and>
   (fst (frame_count_probe T P s f) = Inl e \<and> files s f = Some st \<and>
    (\<forall>y. 0 \<le> y \<longrightarrow> 0 \<le> fl P y) \<and> fl P 800000 \<noteq> 0 \<longrightarrow>
      (\<exists>n. fst (get_frame_count T P s f) = Inr n \<and> 0 \<le> n)) \<and>
   (fst (frame_count_probe T P s f) = Inl e \<and> files s f = Some st \<and> (\<forall>y. fl P y = y) \<longrightarrow>
      fst (get_frame_count T P s f) = Inr (int (st_size st div 100000)) \<and>
      (0 < int (st_size st div 100000) \<longleftrightarrow> 100000 \<le> st_size st))"
proof (intro conjI impI)
  assume "probe T (files s) (nb_frames_cmd f) = Completed 0 out err \<and> isdigit (strip out)"
  then show "fst (get_frame_count T P s f) = Inr (int (nat_of_digits (strip out)))"
    using frame_count_from_metadata by blast
next
  assume "probe T (files s) (nb_frames_cmd f) = Completed rc out err \<and>
    \<not> (rc = 0 \<and> isdigit (strip out)) \<and>
    probe T (files s) (duration_cmd f) = Completed rc2 dout derr \<and>
    float_of_str P (strip dout) = Some duration \<and>
    probe T (files s) (fr_cmd f) = Completed rc3 fout ferr \<and>
    parse_frame_rate P (strip fout) = Inr fr"
  then show "fst (get_frame_count T P s f) = Inr (py_trunc (fl P (duration * fr)))"
    using frame_count_from_duration [of T s f rc out err rc2 dout derr P duration rc3 fout ferr fr]
    by blast
next
  assume "0 \<le> fl P (duration * fr)"
  then show "py_trunc (fl P (duration * fr)) = \<lfloor>fl P (duration * fr)\<rfloor>"
    by (rule py_trunc_floor)
next
  assume "py_int a = Inr num \<and> py_int b = Inr den \<and> den \<noteq> 0 \<and>
    CHR ''/'' \<notin> set a \<and> CHR ''/'' \<notin> set b"
  then show "parse_frame_rate P (a @ ''/'' @ b) = Inr (fl P (of_int num / of_int den))"
    using parse_frame_rate_ratio by blast
next
  assume "CHR ''/'' \<notin> set x \<and> float_of_str P x = Some r"
  then show "parse_frame_rate P x = Inr r"
    using parse_frame_rate_decimal by blast
next
  assume "fst (frame_count_probe T P s f) = Inl e \<and> files s f = Some st \<and>
    (\<forall>y. 0 \<le> y \<longrightarrow> 0 \<le> fl P y) \<and> fl P 800000 \<noteq> 0"
  then show "\<exists>n. fst (get_frame_count T P s f) = Inr n \<and> 0 \<le> n"
    using frame_count_fallback_nonneg [of T P s f e st] by blast
next
  assume h: "fst (frame_count_probe T P s f) = Inl e \<and> files s f = Some st \<and> (\<forall>y. fl P y = y)"
  then show "fst (get_frame_count T P s f) = Inr (int (st_size st div 100000))"
    using frame_count_fallback_exact [of T P s f e st] by blast
  show "0 < int (st_size st div 100000) \<longleftrightarrow> 100000 \<le> st_size st"
    by (simp add: div_greater_zero_iff)
qed


theorem get_frame_count_tiers_witness:
  "fst (get_frame_count ex_tools ex_float ex_state ''/in/a.avi'') = Inr 250 \<and>
   fst (get_frame_count ex_tools_no_count ex_float ex_state ''/in/a.avi'') = Inr 250 \<and>
   parse_frame_rate ex_float ''30000/1001'' = Inr (30000 / 1001) \<and>
   parse_frame_rate ex_float ''29.97'' = Inr (2997 / 100) \<and>
   fst (get_frame_count ex_tools_na ex_float ex_state ''/in/a.avi'') = Inr 50"
proof -
  let ?f = "''/in/a.avi''"
  have ints: "py_int ''30000'' = Inr 30000" "py_int ''1001'' = Inr 1001"
             "py_int ''25'' = Inr 25" "py_int ''1'' = Inr 1"
    by (simp_all add: py_int_def strip_def py_isspace_def isdigit_def py_isdigit_def
                      nat_of_digits_def digit_val_def)
  have decs: "decimal_of_str ''29.97'' = Some (2997 / 100)"
             "decimal_of_str ''10.000000'' = Some 10"
    by (simp_all add: decimal_of_str_def strip_def py_isspace_def py_isdigit_def
                      nat_of_digits_def digit_val_def)
  have exact: "fl ex_float = (\<lambda>x. x)" "float_of_str ex_float = decimal_of_str"
    by (simp_all add: ex_float_def)
  have strips: "strip ''250\<newline>'' = ''250''" "strip ''N/A\<newline>'' = ''N/A''"
               "strip ''10.000000\<newline>'' = ''10.000000''" "strip ''25/1\<newline>'' = ''25/1''"
    by (simp_all add: strip_def py_isspace_def)
  have digs: "isdigit ''250''" "\<not> isdigit ''N/A''" "nat_of_digits ''250'' = 250"
    by (simp_all add: isdigit_def py_isdigit_def nat_of_digits_def digit_val_def)
  have p1: "probe ex_tools (files ex_state) (nb_frames_cmd ?f) = Completed 0 ''250\<newline>'' []"
    using ex_probe_nb_frames by (simp add: ex_tools_def)
  have p2: "probe ex_tools_no_count (files ex_state) (nb_frames_cmd ?f) = Completed 0 ''N/A\<newline>'' []"
           "probe ex_tools_no_count (files ex_state) (duration_cmd ?f)
              = Completed 0 ''10.000000\<newline>'' []"
           "probe ex_tools_no_count (files ex_state) (fr_cmd ?f) = Completed 0 ''25/1\<newline>'' []"
    by (simp_all add: ex_tools_no_count_def ex_probe_def nb_frames_cmd_def duration_cmd_def
                      fr_cmd_def quoted_def)
  have r1: "parse_frame_rate ex_float ''30000/1001'' = Inr (30000 / 1001)"
    using get_frame_count_tiers [where P = ex_float and a = "''30000''" and b = "''1001''"
                                   and num = 30000 and den = 1001] ints exact
    by simp
  have r2: "parse_frame_rate ex_float ''29.97'' = Inr (2997 / 100)"
    using get_frame_count_tiers [where P = ex_float and x = "''29.97''" and r = "2997 / 100"]
          decs exact
    by simp
  have r3: "parse_frame_rate ex_float ''25/1'' = Inr 25"
    using get_frame_count_tiers [where P = ex_float and a = "''25''" and b = "''1''"
                                   and num = 25 and den = 1] ints exact
    by simp
  have t1: "fst (get_frame_count ex_tools ex_float ex_state ?f) = Inr 250"
    using get_frame_count_tiers [where T = ex_tools and s = ex_state and f = ?f
                                   and out = "''250\<newline>''" and err = "[]" and P = ex_float]
          p1 strips digs
    by simp
  have t2: "fst (get_frame_count ex_tools_no_count ex_float ex_state ?f) = Inr 250"
    using get_frame_count_tiers [where T = ex_tools_no_count and s = ex_state and f = ?f
                                   and rc = 0 and out = "''N/A\<newline>''" and err = "[]"
                                   and ?rc2.0 = 0 and dout = "''10.000000\<newline>''" and derr = "[]"
                                   and ?rc3.0 = 0 and fout = "''25/1\<newline>''" and ferr = "[]"
                                   and duration = 10 and fr = 25 and P = ex_float]
          p2 strips digs decs r3 exact
    by (simp add: py_trunc_def)
  have fa: "files ex_state ?f = Some \<lparr>st_mtime = 100, st_size = 5000000\<rparr>"
    by (simp add: ex_state_def batch_fs_def)
  have t3: "fst (get_frame_count ex_tools_na ex_float ex_state ?f) = Inr 50"
    using get_frame_count_tiers [where T = ex_tools_na and s = ex_state and f = ?f
                                   and P = ex_float and e = ValueError
                                   and st = "\<lparr>st_mtime = 100, st_size = 5000000\<rparr>"]
          ex_na_probe_raises [of ex_state ?f] fa exact
    by simp
  show ?thesis using t1 t2 r1 r2 t3 by simp
qed

section \<open>The colour-space check is advisory\<close>









section \<open>The batch summary\<close>

lemma process_files_total:
  "process_files T P cfg fs (s, a, b) = (s', a', b') \<Longrightarrow> a' + b' = a + b + length fs"
proof (induction fs arbitrary: s a b)
  case Nil
  then show ?case by simp
next
  case (Cons f fs)
  then show ?case
    by (cases "process_single_file T P cfg s f") (auto split: bool.splits if_splits)
qed

lemma run_batch_total:
  "successful_files (fst (run_batch T P cfg s fs)) + failed_files (fst (run_batch T P cfg s fs))
     = total_files (fst (run_batch T P cfg s fs)) \<and>
   total_files (fst (run_batch T P cfg s fs)) = length fs"
proof -
  obtain s' a b where r: "process_files T P cfg fs (s, 0, 0) = (s', a, b)"
    by (cases "process_files T P cfg fs (s, 0, 0)") auto
  then show ?thesis
    using process_files_total [OF r] by (simp add: run_batch_def)
qed

lemma process_files_one:
  "fst (process_single_file T P cfg s f) = True \<Longrightarrow>
     process_files T P cfg (f # fs) (s, a, b) =
       process_files T P cfg fs
         (if BATCH_MODE cfg \<and> RICH_AVAILABLE cfg
          then log_message (BatchFileOk (basename f)) (snd (process_single_file T P cfg s f))
          else snd (process_single_file T P cfg s f), a + 1, b)"
  by (cases "process_single_file T P cfg s f") auto

lemma ex_process_files:
  assumes "\<forall>f\<in>set fs. files s f \<noteq> None \<and>
                      CHR 0x22 \<notin> set (get_output_filename f (ctx_output_dir s))"
  shows "\<exists>s'. process_files (ex_tools_with c) ex_float cfg fs (s, a, b) = (s', a + length fs, b) \<and>
              ctx_output_dir s' = ctx_output_dir s \<and>
              (\<forall>p. files s p \<noteq> None \<longrightarrow> files s' p \<noteq> None)"
  using assms
proof (induction fs arbitrary: s a)
  case Nil
  then show ?case by simp
next
  case (Cons f fs)
  let ?r = "process_single_file (ex_tools_with c) ex_float cfg s f"
  let ?s1 = "if BATCH_MODE cfg \<and> RICH_AVAILABLE cfg
             then log_message (BatchFileOk (basename f)) (snd ?r) else snd ?r"
  obtain ist where inp: "files s f = Some ist" using Cons.prems by auto
  have nq: "CHR 0x22 \<notin> set (get_output_filename f (ctx_output_dir s))"
    using Cons.prems by simp
  note job = ex_job [OF inp nq, of c cfg]
  have s1: "ctx_output_dir ?s1 = ctx_output_dir s"
           "\<forall>p. files s p \<noteq> None \<longrightarrow> files ?s1 p \<noteq> None"
    using job by auto
  have "\<forall>g\<in>set fs. files ?s1 g \<noteq> None \<and>
                    CHR 0x22 \<notin> set (get_output_filename g (ctx_output_dir ?s1))"
    using Cons.prems s1 by (metis list.set_intros(2))
  from Cons.IH [OF this, of "a + 1"]
  obtain s' where "process_files (ex_tools_with c) ex_float cfg fs (?s1, a + 1, b)
                     = (s', a + 1 + length fs, b)"
    "ctx_output_dir s' = ctx_output_dir ?s1" "\<forall>p. files ?s1 p \<noteq> None \<longrightarrow> files s' p \<noteq> None"
    by blast
  then show ?case
    using process_files_one [of "ex_tools_with c" ex_float cfg s f fs a b] job s1
    by (auto simp del: process_files.simps)
qed

text \<open>
  C2, as stated, fails: with three supported files of which the second has an output
  that already exists, is newer and exceeds 1,000,000 bytes, and with tools that
  process the other two successfully, the summary reports three successful files, not
  two; the code keeps no count of skipped files.
\<close>

theorem batch_summary_counterexample:
  "should_skip_file ex_config (files ex_state) ''/in/b.mov''
     (get_output_filename ''/in/b.mov'' (ctx_output_dir ex_state)) = Inr True \<and>
   fst (run_batch ex_tools ex_float ex_config ex_state [''/in/a.avi'', ''/in/b.mov'', ''/in/c.mp4''])
     = \<lparr>total_files = 3, successful_files = 3, failed_files = 0\<rparr>"
proof -
  have dir: "ctx_output_dir ex_state = ''/out''" by (simp add: ex_state_def)
  have outs: "get_output_filename ''/in/a.avi'' ''/out'' = ''/out/a.mov''"
             "get_output_filename ''/in/b.mov'' ''/out'' = ''/out/b.mov''"
             "get_output_filename ''/in/c.mp4'' ''/out'' = ''/out/c.mov''"
    by (simp_all add: get_output_filename_def basename_def splitext_def join_def Let_def)
  have skip: "should_skip_file ex_config (files ex_state) ''/in/b.mov'' ''/out/b.mov'' = Inr True"
    by (simp add: should_skip_file_def path_exists_def getmtime_def getsize_def ex_config_def
                  ex_state_def batch_fs_def)
  have "\<forall>f\<in>set [''/in/a.avi'', ''/in/b.mov'', ''/in/c.mp4''].
          files ex_state f \<noteq> None \<and>
          CHR 0x22 \<notin> set (get_output_filename f (ctx_output_dir ex_state))"
    by (simp add: dir outs) (simp add: ex_state_def batch_fs_def)
  from ex_process_files [OF this, of ex_color_out ex_config 0 0]
  have "fst (run_batch ex_tools ex_float ex_config ex_state
               [''/in/a.avi'', ''/in/b.mov'', ''/in/c.mp4''])
          = \<lparr>total_files = 3, successful_files = 3, failed_files = 0\<rparr>"
    by (auto simp: run_batch_def ex_tools_def simp del: process_files.simps)
  then show ?thesis using skip by (simp add: dir outs)
qed


lemma process_files_nil: "process_files T P cfg [] acc = acc"
  by simp

lemma triple_eq: "snd x = (a, b) \<Longrightarrow> x = (fst x, a, b)"
  by (cases x) auto

lemma process_files_append:
  "process_files T P cfg (xs @ ys) acc = process_files T P cfg ys (process_files T P cfg xs acc)"
  by (induction T P cfg xs acc rule: process_files.induct) (auto split: prod.splits bool.splits)

lemma process_files_last:
  assumes "fst (process_single_file T P cfg (fst (process_files T P cfg fs (s, a, b))) f) = True"
  shows "snd (process_files T P cfg (fs @ [f]) (s, a, b))
           = (fst (snd (process_files T P cfg fs (s, a, b))) + 1,
              snd (snd (process_files T P cfg fs (s, a, b))))"
proof -
  obtain s' a' b' where r: "process_files T P cfg fs (s, a, b) = (s', a', b')"
    by (cases "process_files T P cfg fs (s, a, b)") auto
  then have "fst (process_single_file T P cfg s' f) = True" using assms by simp
  then show ?thesis
    using process_files_one [of T P cfg s' f "[]" a' b'] r
    by (simp del: process_files.simps add: process_files_append process_files_nil)
qed

text \<open>
  C2, amended. In a batch of three files with skip-existing enabled, where the first
  file is processed successfully, the second is skipped when it is reached (its
  output exists, is newer and exceeds 1,000,000 bytes), and the third is processed
  successfully, the final summary reports three files in total, three successful and
  none failed: the skipped file is counted as a success, not as a failure, without any
  subprocess being started for it. The summary has no count of skipped files: for
  every batch the successful and the failed files add up to the total.
\<close>

theorem batch_summary_counts_skip_as_success:
  assumes "SKIP_EXISTING cfg"
    and "fst (process_single_file T P cfg s0 f1) = True"
    and "should_skip_file cfg (files (fst (process_files T P cfg [f1] (s0, 0, 0)))) f2
           (get_output_filename f2 (ctx_output_dir (fst (process_files T P cfg [f1] (s0, 0, 0)))))
           = Inr True"
    and "fst (process_single_file T P cfg (fst (process_files T P cfg [f1, f2] (s0, 0, 0))) f3)
           = True"
  shows "fst (run_batch T P cfg s0 [f1, f2, f3])
           = \<lparr>total_files = 3, successful_files = 3, failed_files = 0\<rparr> \<and>
         fst (process_single_file T P cfg (fst (process_files T P cfg [f1] (s0, 0, 0))) f2) = True \<and>
         subprocess_calls
           (snd (process_single_file T P cfg (fst (process_files T P cfg [f1] (s0, 0, 0))) f2))
           = subprocess_calls (fst (process_files T P cfg [f1] (s0, 0, 0))) \<and>
         (\<forall>s fs. successful_files (fst (run_batch T P cfg s fs))
                   + failed_files (fst (run_batch T P cfg s fs))
                  = total_files (fst (run_batch T P cfg s fs)))"
proof -
  let ?s1 = "fst (process_files T P cfg [f1] (s0, 0, 0))"
  let ?s2 = "fst (process_files T P cfg [f1, f2] (s0, 0, 0))"
  have "snd (process_files T P cfg ([] @ [f1]) (s0, 0, 0)) = (1, 0)"
    using process_files_last [of T P cfg "[]" s0 0 0 f1] assms(2)
    by (simp del: process_files.simps add: process_files_nil)
  then have one: "snd (process_files T P cfg [f1] (s0, 0, 0)) = (1, 0)"
    by (simp del: process_files.simps)
  have v2: "fst (process_single_file T P cfg ?s1 f2) = True"
    using process_skipped [OF assms(3), of T P] by simp
  have c2: "subprocess_calls (snd (process_single_file T P cfg ?s1 f2)) = subprocess_calls ?s1"
    using process_skipped [OF assms(3), of T P] by simp
  have "snd (process_files T P cfg ([f1] @ [f2]) (s0, 0, 0)) = (2, 0)"
    using process_files_last [of T P cfg "[f1]" s0 0 0 f2] v2 one
    by (simp del: process_files.simps)
  then have two: "snd (process_files T P cfg [f1, f2] (s0, 0, 0)) = (2, 0)"
    by (simp del: process_files.simps)
  have "snd (process_files T P cfg ([f1, f2] @ [f3]) (s0, 0, 0)) = (3, 0)"
    using process_files_last [of T P cfg "[f1, f2]" s0 0 0 f3] assms(4) two
    by (simp del: process_files.simps)
  then have three: "snd (process_files T P cfg [f1, f2, f3] (s0, 0, 0)) = (3, 0)"
    by (simp del: process_files.simps)
  have "fst (run_batch T P cfg s0 [f1, f2, f3])
          = \<lparr>total_files = 3, successful_files = 3, failed_files = 0\<rparr>"
    using three
    by (cases "process_files T P cfg [f1, f2, f3] (s0, 0, 0)")
       (auto simp: run_batch_def simp del: process_files.simps)
  then show ?thesis
    using v2 c2 run_batch_total [of T P cfg] by blast
qed

theorem batch_summary_counts_skip_as_success_witness:
  "SKIP_EXISTING ex_config \<and>
   fst (process_single_file ex_tools ex_float ex_config ex_state ''/in/a.avi'') = True \<and>
   should_skip_file ex_config
     (files (fst (process_files ex_tools ex_float ex_config [''/in/a.avi''] (ex_state, 0, 0))))
     ''/in/b.mov''
     (get_output_filename ''/in/b.mov''
        (ctx_output_dir
           (fst (process_files ex_tools ex_float ex_config [''/in/a.avi''] (ex_state, 0, 0)))))
     = Inr True \<and>
   fst (process_single_file ex_tools ex_float ex_config
          (fst (process_files ex_tools ex_float ex_config [''/in/a.avi'', ''/in/b.mov'']
                  (ex_state, 0, 0)))
          ''/in/c.mp4'') = True \<and>
   fst (run_batch ex_tools ex_float ex_config ex_state
          [''/in/a.avi'', ''/in/b.mov'', ''/in/c.mp4''])
     = \<lparr>total_files = 3, successful_files = 3, failed_files = 0\<rparr> \<and>
   subprocess_calls
     (snd (process_single_file ex_tools ex_float ex_config
             (fst (process_files ex_tools ex_float ex_config [''/in/a.avi''] (ex_state, 0, 0)))
             ''/in/b.mov''))
     = subprocess_calls
         (fst (process_files ex_tools ex_float ex_config [''/in/a.avi''] (ex_state, 0, 0)))"
proof -
  let ?T = "ex_tools_with ex_color_out"
  let ?r1 = "process_single_file ?T ex_float ex_config ex_state ''/in/a.avi''"
  let ?s1 = "log_message (BatchFileOk (basename ''/in/a.avi'')) (snd ?r1)"
  have T: "ex_tools = ?T" by (simp add: ex_tools_def)
  have cfg: "SKIP_EXISTING ex_config" "BATCH_MODE ex_config" "RICH_AVAILABLE ex_config"
    by (simp_all add: ex_config_def)
  have dir: "ctx_output_dir ex_state = ''/out''" by (simp add: ex_state_def)
  have outs: "get_output_filename ''/in/a.avi'' ''/out'' = ''/out/a.mov''"
             "get_output_filename ''/in/b.mov'' ''/out'' = ''/out/b.mov''"
             "get_output_filename ''/in/c.mp4'' ''/out'' = ''/out/c.mov''"
    by (simp_all add: get_output_filename_def basename_def splitext_def join_def Let_def)
  have fa: "files ex_state ''/in/a.avi'' = Some \<lparr>st_mtime = 100, st_size = 5000000\<rparr>"
    by (simp add: ex_state_def batch_fs_def)
  have nqa: "CHR 0x22 \<notin> set (get_output_filename ''/in/a.avi'' (ctx_output_dir ex_state))"
    by (simp add: dir outs)
  note job1 = ex_job [OF fa nqa, of ex_color_out ex_config]
  have h2: "fst ?r1 = True" using job1 by simp
  have p1: "process_files ?T ex_float ex_config [''/in/a.avi''] (ex_state, 0, 0) = (?s1, 1, 0)"
    using process_files_one [OF h2, of "[]" 0 0] cfg
    by (simp del: process_files.simps add: process_files_nil)
  have d1: "ctx_output_dir ?s1 = ''/out''" using job1 by (simp add: dir)
  have b1: "files ?s1 ''/in/b.mov'' = Some \<lparr>st_mtime = 100, st_size = 6000000\<rparr>"
           "files ?s1 ''/out/b.mov'' = Some \<lparr>st_mtime = 200, st_size = 2000000\<rparr>"
           "files ?s1 ''/in/c.mp4'' = Some \<lparr>st_mtime = 100, st_size = 7000000\<rparr>"
    using job1
    by (simp_all add: dir outs rewrap_output_file_def basename_def splitext_def join_def Let_def
                      ex_state_def batch_fs_def split: if_splits)
  have h3: "should_skip_file ex_config (files ?s1) ''/in/b.mov'' ''/out/b.mov'' = Inr True"
    using b1
    by (simp add: should_skip_file_def path_exists_def getmtime_def getsize_def ex_config_def)
  have h3': "should_skip_file ex_config (files ?s1) ''/in/b.mov''
               (get_output_filename ''/in/b.mov'' (ctx_output_dir ?s1)) = Inr True"
    using h3 d1 by (simp add: outs)
  let ?r2 = "process_single_file ?T ex_float ex_config ?s1 ''/in/b.mov''"
  let ?s2 = "log_message (BatchFileOk (basename ''/in/b.mov'')) (snd ?r2)"
  have r2: "?r2 = (True, log_message (Skipping (basename ''/in/b.mov''))
                           (start_job ?s1 ''/in/b.mov''))"
    by (rule process_skipped [OF h3'])
  have p2: "process_files ?T ex_float ex_config [''/in/a.avi'', ''/in/b.mov''] (ex_state, 0, 0)
              = (?s2, 2, 0)"
  proof -
    have "process_files ?T ex_float ex_config ([''/in/a.avi''] @ [''/in/b.mov'']) (ex_state, 0, 0)
            = process_files ?T ex_float ex_config [''/in/b.mov''] (?s1, 1, 0)"
      by (simp only: process_files_append p1)
    also have "\<dots> = (?s2, 2, 0)"
      using process_files_one [of ?T ex_float ex_config ?s1 "''/in/b.mov''" "[]" 1 0] r2 cfg
      by (simp del: process_files.simps add: process_files_nil)
    finally show ?thesis by (simp del: process_files.simps)
  qed
  have d2: "ctx_output_dir ?s2 = ''/out''" using d1 by (simp add: r2)
  have fc: "files ?s2 ''/in/c.mp4'' = Some \<lparr>st_mtime = 100, st_size = 7000000\<rparr>"
    using b1 by (simp add: r2)
  have nqc: "CHR 0x22 \<notin> set (get_output_filename ''/in/c.mp4'' (ctx_output_dir ?s2))"
    by (simp only: d2 outs) simp
  have h4: "fst (process_single_file ?T ex_float ex_config ?s2 ''/in/c.mp4'') = True"
    using ex_job [OF fc nqc, of ex_color_out ex_config] by simp
  have a1: "SKIP_EXISTING ex_config" by (rule cfg)
  have a2: "fst (process_single_file ex_tools ex_float ex_config ex_state ''/in/a.avi'') = True"
    using h2 by (simp only: T)
  have a3: "should_skip_file ex_config
     (files (fst (process_files ex_tools ex_float ex_config [''/in/a.avi''] (ex_state, 0, 0))))
     ''/in/b.mov''
     (get_output_filename ''/in/b.mov''
        (ctx_output_dir
           (fst (process_files ex_tools ex_float ex_config [''/in/a.avi''] (ex_state, 0, 0)))))
     = Inr True"
    using h3' by (simp only: T p1 fst_conv)
  have a4: "fst (process_single_file ex_tools ex_float ex_config
          (fst (process_files ex_tools ex_float ex_config [''/in/a.avi'', ''/in/b.mov'']
                  (ex_state, 0, 0)))
          ''/in/c.mp4'') = True"
    using h4 by (simp only: T p2 fst_conv)
  from batch_summary_counts_skip_as_success [OF a1 a2 a3 a4] a1 a2 a3 a4
  show ?thesis by blast
qed

section \<open>The progress monitor keeps the frame index monotone\<close>

lemma log_message_progress [simp]:
  "progress_updates (log_message m s) = progress_updates s"
  "ctx_current_frame (log_message m s) = ctx_current_frame s"
  by (simp_all add: log_message_def)

lemma try_patterns_capture:
  "try_patterns cfg s t line ps =
     (case first_capture line ps of
        None \<Rightarrow> s
      | Some n \<Rightarrow> if n > ctx_current_frame s then accept_frame cfg s t n else s)"
  by (induction ps) (auto simp: Let_def split: option.splits)

lemma accept_frame_fields:
  "ctx_current_frame (accept_frame cfg s t n) = n"
  "progress_updates (accept_frame cfg s t n) =
     progress_updates s @
       [\<lparr>completed = (if TEST_MODE cfg then min n (TEST_FRAME_COUNT cfg) else n),
         total = (if TEST_MODE cfg then TEST_FRAME_COUNT cfg
                  else if ctx_frame_count s \<noteq> 0 then ctx_frame_count s else n + 1000),
         speed_text = (case ctx_last_frame_time s of
                         Some last_time \<Rightarrow>
                           if t - last_time > 0 \<and> n - ctx_last_frame_count s > 0
                           then Fps (of_int (n - ctx_last_frame_count s) / (t - last_time))
                           else Calculating
                       | None \<Rightarrow> Starting)\<rparr>]"
  by (simp_all add: accept_frame_def Let_def split: option.splits)

lemma monitor_line_cases:
  "(case captured_frame line of
      Some n \<Rightarrow>
        if n > ctx_current_frame s
        then ctx_current_frame (monitor_line cfg s t line) = n \<and>
             (\<exists>u. progress_updates (monitor_line cfg s t line) = progress_updates s @ [u] \<and>
                  completed u = (if TEST_MODE cfg then min n (TEST_FRAME_COUNT cfg) else n))
        else ctx_current_frame (monitor_line cfg s t line) = ctx_current_frame s \<and>
             progress_updates (monitor_line cfg s t line) = progress_updates s
    | None \<Rightarrow> ctx_current_frame (monitor_line cfg s t line) = ctx_current_frame s \<and>
              progress_updates (monitor_line cfg s t line) = progress_updates s)"
  by (simp add: monitor_line_def captured_frame_def try_patterns_capture accept_frame_fields
                Let_def split: option.splits)

lemma monitor_line_accept:
  assumes "captured_frame line = Some n" and "n > ctx_current_frame s"
  shows "ctx_current_frame (monitor_line cfg s t line) = n"
    and "\<exists>u. progress_updates (monitor_line cfg s t line) = progress_updates s @ [u] \<and>
             completed u = (if TEST_MODE cfg then min n (TEST_FRAME_COUNT cfg) else n)"
  using monitor_line_cases [where line = line and s = s and cfg = cfg and t = t] assms by simp_all

lemma monitor_line_ignore:
  assumes "\<forall>n. captured_frame line = Some n \<longrightarrow> n \<le> ctx_current_frame s"
  shows "ctx_current_frame (monitor_line cfg s t line) = ctx_current_frame s"
    and "progress_updates (monitor_line cfg s t line) = progress_updates s"
  using monitor_line_cases [where line = line and s = s and cfg = cfg and t = t] assms
  by (cases "captured_frame line"; simp; fail)+

lemma debug_logged_fields:
  "progress_updates (debug_logged cfg s line) = progress_updates s"
  "ctx_current_frame (debug_logged cfg s line) = ctx_current_frame s"
  by (simp_all add: debug_logged_def)

lemma monitor_lines_step:
  "monitor_lines cfg s (ev # evs) =
     (if ev_line ev = [] then s
      else if strip (ev_line ev) = [] then monitor_lines cfg s evs
      else if ev_exited ev then debug_logged cfg s (strip (ev_line ev))
      else monitor_lines cfg
             (monitor_line cfg (debug_logged cfg s (strip (ev_line ev))) (ev_time ev)
                (strip (ev_line ev))) evs)"
  by (simp add: Let_def debug_logged_def)

lemma frames_inv_same:
  assumes "progress_updates r = progress_updates s" and "ctx_current_frame r = ctx_current_frame s"
  shows "frames_inv cfg s r"
  unfolding frames_inv_def using assms by (intro exI [of _ "[]"]) simp

lemma frames_inv_ignore:
  assumes "frames_inv cfg s2 r"
    and "progress_updates s2 = progress_updates s" and "ctx_current_frame s2 = ctx_current_frame s"
  shows "frames_inv cfg s r"
  using assms unfolding frames_inv_def by simp

lemma frames_inv_accept:
  assumes inv: "frames_inv cfg s2 r"
    and u: "progress_updates s2 = progress_updates s @ [u]"
           "completed u = (if TEST_MODE cfg then min n (TEST_FRAME_COUNT cfg) else n)"
    and n: "ctx_current_frame s2 = n" "ctx_current_frame s < n"
  shows "frames_inv cfg s r"
proof -
  let ?f = "\<lambda>n. if TEST_MODE cfg then min n (TEST_FRAME_COUNT cfg) else n"
  from inv obtain ns new where
    ih: "progress_updates r = progress_updates s2 @ new"
        "map completed new = map ?f ns" "sorted_wrt (<) ns"
        "\<forall>m\<in>set ns. ctx_current_frame s2 < m \<and> m \<le> ctx_current_frame r"
        "ctx_current_frame s2 \<le> ctx_current_frame r"
    unfolding frames_inv_def by blast
  have 1: "progress_updates r = progress_updates s @ (u # new)" using ih(1) u(1) by simp
  have 2: "map completed (u # new) = map ?f (n # ns)" using ih(2) u(2) by simp
  have 3: "sorted_wrt (<) (n # ns)" using ih(3,4) n(1) by simp
  have 4: "\<forall>m\<in>set (n # ns). ctx_current_frame s < m \<and> m \<le> ctx_current_frame r"
    using ih(4,5) n by auto
  have 5: "ctx_current_frame s \<le> ctx_current_frame r" using ih(5) n by simp
  show ?thesis unfolding frames_inv_def using 1 2 3 4 5 by blast
qed

lemma monitor_lines_frames: "frames_inv cfg s (monitor_lines cfg s evs)"
proof (induction evs arbitrary: s)
  case Nil
  show ?case by (simp add: frames_inv_same)
next
  case (Cons ev evs)
  let ?line = "strip (ev_line ev)"
  let ?s1 = "debug_logged cfg s ?line"
  let ?s2 = "monitor_line cfg ?s1 (ev_time ev) ?line"
  note s1 = debug_logged_fields [of cfg s ?line]
  show ?case
  proof (cases "ev_line ev = []")
    case True
    then show ?thesis
      by (simp add: monitor_lines_step frames_inv_same del: monitor_lines.simps)
  next
    case nonempty: False
    show ?thesis
    proof (cases "?line = []")
      case True
      then show ?thesis using nonempty Cons.IH [of s]
        by (simp add: monitor_lines_step del: monitor_lines.simps)
    next
      case line: False
      show ?thesis
      proof (cases "ev_exited ev")
        case True
        then show ?thesis using nonempty line frames_inv_same [OF s1]
          by (simp add: monitor_lines_step del: monitor_lines.simps)
      next
        case False
        then have step: "monitor_lines cfg s (ev # evs) = monitor_lines cfg ?s2 evs"
          using nonempty line by (simp add: monitor_lines_step del: monitor_lines.simps)
        have ih: "frames_inv cfg ?s2 (monitor_lines cfg ?s2 evs)" by (rule Cons.IH)
        show ?thesis
        proof (cases "\<exists>n. captured_frame ?line = Some n \<and> n > ctx_current_frame s")
          case True
          then obtain n where n: "captured_frame ?line = Some n" "n > ctx_current_frame ?s1"
            using s1 by auto
          from monitor_line_accept [OF n, where cfg = cfg and t = "ev_time ev"] obtain u where
            u: "ctx_current_frame ?s2 = n" "progress_updates ?s2 = progress_updates s @ [u]"
               "completed u = (if TEST_MODE cfg then min n (TEST_FRAME_COUNT cfg) else n)"
            using s1 by auto
          have "ctx_current_frame s < n" using n(2) s1 by simp
          from frames_inv_accept [OF ih u(2) u(3) u(1) this]
          show ?thesis by (simp only: step)
        next
          case False
          then have "\<forall>n. captured_frame ?line = Some n \<longrightarrow> n \<le> ctx_current_frame ?s1"
            using s1 by auto
          from monitor_line_ignore [OF this, where cfg = cfg and t = "ev_time ev"]
          have "progress_updates ?s2 = progress_updates s" "ctx_current_frame ?s2 = ctx_current_frame s"
            using s1 by simp_all
          from frames_inv_ignore [OF ih this]
          show ?thesis by (simp only: step)
        qed
      qed
    qed
  qed
qed

lemma sorted_map_clip:
  "sorted_wrt (<) (ns :: int list) \<Longrightarrow> sorted (map (\<lambda>n. if b then min n c else n) ns)"
  by (induction ns) (auto simp: min_def)

lemma monitor_lines_sorted:
  "\<exists>new. progress_updates (monitor_lines cfg s evs) = progress_updates s @ new \<and>
         sorted (map completed new) \<and>
         (\<not> TEST_MODE cfg \<longrightarrow> sorted_wrt (<) (map completed new) \<and>
                               (\<forall>u\<in>set new. ctx_current_frame s < completed u)) \<and>
         ctx_current_frame s \<le> ctx_current_frame (monitor_lines cfg s evs)"
proof -
  obtain ns new where
    r: "progress_updates (monitor_lines cfg s evs) = progress_updates s @ new"
       "map completed new
          = map (\<lambda>n. if TEST_MODE cfg then min n (TEST_FRAME_COUNT cfg) else n) ns"
       "sorted_wrt (<) ns"
       "\<forall>n\<in>set ns. ctx_current_frame s < n \<and> n \<le> ctx_current_frame (monitor_lines cfg s evs)"
       "ctx_current_frame s \<le> ctx_current_frame (monitor_lines cfg s evs)"
    using monitor_lines_frames [of cfg s evs] unfolding frames_inv_def by blast
  have "sorted (map completed new)" using sorted_map_clip [OF r(3)] r(2) by simp
  moreover have "\<not> TEST_MODE cfg \<longrightarrow> sorted_wrt (<) (map completed new) \<and>
                               (\<forall>u\<in>set new. ctx_current_frame s < completed u)"
  proof
    assume "\<not> TEST_MODE cfg"
    then have m: "map completed new = ns" using r(2) by simp
    then have "set ns = completed ` set new" by (metis set_map)
    then show "sorted_wrt (<) (map completed new) \<and>
               (\<forall>u\<in>set new. ctx_current_frame s < completed u)"
      using r(3,4) m by auto
  qed
  ultimately show ?thesis using r(1,5) by blast
qed

lemma monitor_progress_frames:
  "\<exists>new. progress_updates (monitor_progress cfg s evs) = progress_updates s @ new \<and>
         sorted (map completed new) \<and>
         (\<not> TEST_MODE cfg \<longrightarrow> sorted_wrt (<) (map completed new) \<and>
                               (\<forall>u\<in>set new. 0 < completed u))"
proof -
  let ?s0 = "s\<lparr>ctx_current_frame := 0\<rparr>"
  have triv: "\<And>r. progress_updates r = progress_updates s \<Longrightarrow>
    \<exists>new. progress_updates r = progress_updates s @ new \<and> sorted (map completed new) \<and>
         (\<not> TEST_MODE cfg \<longrightarrow> sorted_wrt (<) (map completed new) \<and>
                               (\<forall>u\<in>set new. 0 < completed u))"
    by (intro exI [of _ "[]"]) simp
  show ?thesis
  proof (cases "ctx_has_process s \<and> RICH_AVAILABLE cfg \<and> BATCH_MODE cfg \<and>
                ctx_has_current_file_task s")
    case True
    then have "monitor_progress cfg s evs = monitor_lines cfg ?s0 evs"
      by (simp add: monitor_progress_def Let_def)
    then show ?thesis using monitor_lines_sorted [of cfg ?s0 evs] by simp blast
  next
    case False
    then have "progress_updates (monitor_progress cfg s evs) = progress_updates s"
      by (auto simp: monitor_progress_def Let_def)
    then show ?thesis by (rule triv)
  qed
qed

lemma monitor_lines_nil: "monitor_lines cfg s [] = s"
  by simp

lemma ex_captures:
  "strip ''frame=  100 fps=25\<newline>'' = ''frame=  100 fps=25''"
  "strip ''frame=   50 fps=25\<newline>'' = ''frame=   50 fps=25''"
  "strip ''Output 120 frames in 4.80 seconds\<newline>'' = ''Output 120 frames in 4.80 seconds''"
  "captured_frame ''frame=  100 fps=25'' = Some 100"
  "captured_frame ''frame=   50 fps=25'' = Some 50"
  "captured_frame ''Output 120 frames in 4.80 seconds'' = Some 120"
  by (simp_all add: strip_def py_isspace_def captured_frame_def frame_patterns_def
        match_frame_eq_def match_output_frames_def match_frames_in_def lower_def lower_char_def
        py_isdigit_def nat_of_digits_def digit_val_def Let_def)

text \<open>
  C3. Whatever lines the progress monitor consumes, the completed values it reports,
  in the order reported, never decrease (and strictly increase outside test mode,
  where the value is not clipped to the test frame count). Per line: the number
  captured by the first matching pattern is accepted only if it is strictly greater
  than the recorded frame index, in which case it becomes the recorded index and
  exactly one update is reported; otherwise (lower or equal number, or no number) the
  line leaves the recorded index and the reported updates as they are.
\<close>

theorem progress_frames_monotone:
  "(\<exists>new. progress_updates (monitor_progress cfg s evs) = progress_updates s @ new \<and>
          sorted (map completed new) \<and>
          (\<not> TEST_MODE cfg \<longrightarrow> sorted_wrt (<) (map completed new))) \<and>
   (\<forall>s1 t line.
      case captured_frame line of
        Some n \<Rightarrow>
          if n > ctx_current_frame s1
          then ctx_current_frame (monitor_line cfg s1 t line) = n \<and>
               (\<exists>u. progress_updates (monitor_line cfg s1 t line) = progress_updates s1 @ [u] \<and>
                    completed u = (if TEST_MODE cfg then min n (TEST_FRAME_COUNT cfg) else n))
          else ctx_current_frame (monitor_line cfg s1 t line) = ctx_current_frame s1 \<and>
               progress_updates (monitor_line cfg s1 t line) = progress_updates s1
      | None \<Rightarrow> ctx_current_frame (monitor_line cfg s1 t line) = ctx_current_frame s1 \<and>
                progress_updates (monitor_line cfg s1 t line) = progress_updates s1)"
proof -
  have "\<exists>new. progress_updates (monitor_progress cfg s evs) = progress_updates s @ new \<and>
          sorted (map completed new) \<and>
          (\<not> TEST_MODE cfg \<longrightarrow> sorted_wrt (<) (map completed new))"
    using monitor_progress_frames [of cfg s evs] by blast
  then show ?thesis using monitor_line_cases by blast
qed

theorem progress_frames_monotone_witness:
  "captured_frame ''frame=   50 fps=25'' = Some 50 \<and>
   ctx_current_frame (monitor_progress ex_config ex_state (take 1 out_of_order_lines)) = 100 \<and>
   progress_updates
     (monitor_line ex_config (monitor_progress ex_config ex_state (take 1 out_of_order_lines)) 2
        ''frame=   50 fps=25'')
     = progress_updates (monitor_progress ex_config ex_state (take 1 out_of_order_lines)) \<and>
   map completed (progress_updates (monitor_progress ex_config ex_state out_of_order_lines))
     = [100, 120] \<and>
   sorted (map completed (progress_updates (monitor_progress ex_config ex_state out_of_order_lines)))"
proof -
  let ?s0 = "ex_state\<lparr>ctx_current_frame := 0\<rparr>"
  let ?S = "monitor_progress ex_config ex_state (take 1 out_of_order_lines)"
  have cfg: "RICH_AVAILABLE ex_config" "BATCH_MODE ex_config" "\<not> DEBUG_MODE ex_config"
            "\<not> TEST_MODE ex_config"
    by (simp_all add: ex_config_def)
  have st: "ctx_has_process ex_state" "ctx_has_current_file_task ex_state"
           "progress_updates ex_state = []"
    by (simp_all add: ex_state_def)
  have mp: "\<And>evs. monitor_progress ex_config ex_state evs = monitor_lines ex_config ?s0 evs"
    using cfg st by (simp add: monitor_progress_def Let_def)
  have dl: "\<And>s line. debug_logged ex_config s line = s" using cfg by (simp add: debug_logged_def)
  let ?a = "monitor_line ex_config ?s0 1 ''frame=  100 fps=25''"
  let ?b = "monitor_line ex_config ?a 2 ''frame=   50 fps=25''"
  let ?c = "monitor_line ex_config ?b 3 ''frame=  100 fps=25''"
  let ?d = "monitor_line ex_config ?c 4 ''Output 120 frames in 4.80 seconds''"
  have all: "monitor_lines ex_config ?s0 out_of_order_lines = ?d"
    by (simp del: monitor_lines.simps
             add: out_of_order_lines_def monitor_lines_step monitor_lines_nil dl ex_captures)
  have one: "?S = ?a"
    by (simp del: monitor_lines.simps
             add: mp out_of_order_lines_def monitor_lines_step monitor_lines_nil dl ex_captures)
  note th = progress_frames_monotone [of ex_config ex_state out_of_order_lines]
  from th have line: "\<And>s1 t line.
      case captured_frame line of
        Some n \<Rightarrow>
          if n > ctx_current_frame s1
          then ctx_current_frame (monitor_line ex_config s1 t line) = n \<and>
               (\<exists>u. progress_updates (monitor_line ex_config s1 t line) = progress_updates s1 @ [u] \<and>
                    completed u = (if TEST_MODE ex_config then min n (TEST_FRAME_COUNT ex_config) else n))
          else ctx_current_frame (monitor_line ex_config s1 t line) = ctx_current_frame s1 \<and>
               progress_updates (monitor_line ex_config s1 t line) = progress_updates s1
      | None \<Rightarrow> ctx_current_frame (monitor_line ex_config s1 t line) = ctx_current_frame s1 \<and>
                progress_updates (monitor_line ex_config s1 t line) = progress_updates s1"
    by blast
  from line [of ?s0 1 "''frame=  100 fps=25''"] obtain u1 where
    a: "ctx_current_frame ?a = 100" "progress_updates ?a = [u1]" "completed u1 = 100"
    using cfg st by (auto simp: ex_captures)
  from line [of ?a 2 "''frame=   50 fps=25''"] have
    b: "ctx_current_frame ?b = 100" "progress_updates ?b = [u1]"
    using a by (simp_all add: ex_captures)
  from line [of ?b 3 "''frame=  100 fps=25''"] have
    c: "ctx_current_frame ?c = 100" "progress_updates ?c = [u1]"
    using b by (simp_all add: ex_captures)
  from line [of ?c 4 "''Output 120 frames in 4.80 seconds''"] obtain u2 where
    d: "progress_updates ?d = [u1, u2]" "completed u2 = 120"
    using c cfg by (auto simp: ex_captures)
  have r: "map completed (progress_updates (monitor_progress ex_config ex_state out_of_order_lines))
             = [100, 120]"
    using d a(3) by (simp only: mp all) simp
  from th r a b one show ?thesis
    by (simp add: ex_captures)
qed

section \<open>The watchdog\<close>

lemma foldl_reset_timer:
  "wd_timeout (foldl reset_timer w rs) = wd_timeout w"
  "wd_check_interval (foldl reset_timer w rs) = wd_check_interval w"
  "wd_output_detected (foldl reset_timer w rs) = (wd_output_detected w \<or> rs \<noteq> [])"
  "wd_last_output_time (foldl reset_timer w rs) = (if rs = [] then wd_last_output_time w else last rs)"
  by (induction rs arbitrary: w) (auto simp: reset_timer_def)

lemma check_process_health_quiet:
  "quiet tk \<Longrightarrow>
     check_process_health w tk =
       (\<not> (tk_now tk - wd_last_output_time w > wd_timeout w \<and> wd_output_detected w), w)"
  by (simp add: check_process_health_def quiet_def Let_def)

lemma check_process_health_false:
  assumes "check_process_health w tk = (False, w')"
  shows "(tk_exited tk \<and> w' = w) \<or>
         (\<not> tk_exited tk \<and> w' = foldl reset_timer w (tk_output tk) \<and> wd_output_detected w' \<and>
          tk_now tk - wd_last_output_time w' > wd_timeout w')"
  using assms by (auto simp: check_process_health_def Let_def split: if_splits)

lemma check_process_health_true:
  assumes "check_process_health w tk = (True, w')"
  shows "\<not> tk_exited tk \<and> w' = foldl reset_timer w (tk_output tk)"
  using assms by (auto simp: check_process_health_def Let_def split: if_splits)

lemma watchdog_monitor_frozen:
  assumes "watchdog_monitor w tks = (DeclaredFrozen t b, w')"
  shows "\<exists>tk\<in>set tks. tk_now tk = t \<and> b = cleanup_terminates tk \<and>
           (if tk_exited tk then \<not> b
            else wd_output_detected w' \<and> t - wd_last_output_time w' > wd_timeout w')"
    and "wd_timeout w' = wd_timeout w"
    and "wd_output_detected w' \<Longrightarrow> wd_output_detected w \<or> (\<exists>tk\<in>set tks. tk_output tk \<noteq> [])"
  using assms
proof (induction tks arbitrary: w)
  case Nil
  { case 1 then show ?case by simp }
  { case 2 then show ?case by simp }
  { case 3 then show ?case by simp }
next
  case (Cons tk tks)
  { case 1
    show ?case
    proof (cases "check_process_health w tk")
      case (Pair ok w1)
      show ?thesis
      proof (cases ok)
        case True
        then have "watchdog_monitor w1 tks = (DeclaredFrozen t b, w')"
          using 1 Pair by (simp split: if_splits)
        from Cons.IH(1) [OF this] show ?thesis by auto
      next
        case False
        then have r: "t = tk_now tk" "b = cleanup_terminates tk" "w' = w1" "\<not> tk_stop tk"
          using 1 Pair by (auto split: if_splits)
        from check_process_health_false [of w tk w1] Pair False r
        show ?thesis by (auto simp: cleanup_terminates_def)
      qed
    qed }
  { case 2
    show ?case
    proof (cases "check_process_health w tk")
      case (Pair ok w1)
      show ?thesis
      proof (cases ok)
        case True
        then have m: "watchdog_monitor w1 tks = (DeclaredFrozen t b, w')"
          using 2 Pair by (simp split: if_splits)
        from Cons.IH(2) [OF m] check_process_health_true [of w tk w1] Pair True
        show ?thesis by (simp add: foldl_reset_timer)
      next
        case False
        then have r: "w' = w1" using 2 Pair by (auto split: if_splits)
        from check_process_health_false [of w tk w1] Pair False r
        show ?thesis by (auto simp: foldl_reset_timer)
      qed
    qed }
  { case 3
    show ?case
    proof (cases "check_process_health w tk")
      case (Pair ok w1)
      show ?thesis
      proof (cases ok)
        case True
        then have m: "watchdog_monitor w1 tks = (DeclaredFrozen t b, w')"
          using 3 Pair by (simp split: if_splits)
        from Cons.IH(3) [OF 3(1) m] check_process_health_true [of w tk w1] Pair True
        show ?thesis by (auto simp: foldl_reset_timer)
      next
        case False
        then have r: "w' = w1" using 3 Pair by (auto split: if_splits)
        from check_process_health_false [of w tk w1] Pair False r 3(1)
        show ?thesis by (auto simp: foldl_reset_timer)
      qed
    qed }
qed

lemma watchdog_monitor_no_output:
  assumes "\<not> wd_output_detected w" and "\<forall>tk\<in>set tks. \<not> tk_exited tk \<and> tk_output tk = []"
  shows "fst (watchdog_monitor w tks) = Watching \<or> fst (watchdog_monitor w tks) = Stopped"
  using assms
proof (induction tks arbitrary: w)
  case Nil
  then show ?case by simp
next
  case (Cons tk tks)
  then have "check_process_health w tk = (True, w)"
    by (simp add: check_process_health_def Let_def)
  then show ?case using Cons by simp
qed

lemma watchdog_monitor_no_termination:
  assumes "\<not> wd_output_detected w" and "\<forall>tk\<in>set tks. tk_output tk = []"
  shows "fst (watchdog_monitor w tks) \<noteq> DeclaredFrozen t True"
proof
  assume a: "fst (watchdog_monitor w tks) = DeclaredFrozen t True"
  then obtain w' where m: "watchdog_monitor w tks = (DeclaredFrozen t True, w')"
    by (cases "watchdog_monitor w tks") auto
  from watchdog_monitor_frozen(1) [OF m] have "wd_output_detected w'"
    by (auto split: if_splits)
  from watchdog_monitor_frozen(3) [OF m this] show False using assms by blast
qed

lemma watchdog_monitor_fires:
  assumes "wd_output_detected w"
    and "\<forall>tk\<in>set tks. quiet tk"
    and "gaps_within d tks"
    and "tks \<noteq> []"
    and "tk_now (hd tks) \<le> wd_last_output_time w + wd_timeout w"
    and "wd_last_output_time w + wd_timeout w < tk_now (last tks)"
  shows "\<exists>t b. watchdog_monitor w tks = (DeclaredFrozen t b, w) \<and>
               t = tk_now (hd (dropWhile (\<lambda>tk. tk_now tk \<le> wd_last_output_time w + wd_timeout w) tks)) \<and>
               wd_last_output_time w + wd_timeout w < t \<and>
               t \<le> wd_last_output_time w + wd_timeout w + d"
  using assms
proof (induction tks)
  case Nil
  then show ?case by simp
next
  case (Cons tk tks)
  let ?e = "wd_last_output_time w + wd_timeout w"
  have q: "quiet tk" using Cons.prems by simp
  have le: "tk_now tk \<le> ?e" using Cons.prems(5) by simp
  have step: "watchdog_monitor w (tk # tks) = watchdog_monitor w tks"
    using check_process_health_quiet [OF q, of w] q le by (simp add: quiet_def)
  have ne: "tks \<noteq> []" using Cons.prems(6) le by auto
  then obtain tk' rest where tks: "tks = tk' # rest" by (cases tks) auto
  have q': "quiet tk'" using Cons.prems(2) tks by simp
  have gap: "tk_now tk' \<le> tk_now tk + d" "gaps_within d tks"
    using Cons.prems(3) tks by simp_all
  have dw: "dropWhile (\<lambda>tk. tk_now tk \<le> ?e) (tk # tks) = dropWhile (\<lambda>tk. tk_now tk \<le> ?e) tks"
    using le by simp
  show ?case
  proof (cases "tk_now tk' \<le> ?e")
    case True
    have "\<exists>t b. watchdog_monitor w tks = (DeclaredFrozen t b, w) \<and>
               t = tk_now (hd (dropWhile (\<lambda>tk. tk_now tk \<le> ?e) tks)) \<and> ?e < t \<and> t \<le> ?e + d"
      using Cons.prems(1,2,6) gap(2) ne True tks by (intro Cons.IH) auto
    then show ?thesis by (simp only: step dw)
  next
    case False
    then have fire: "watchdog_monitor w tks
                       = (DeclaredFrozen (tk_now tk') (cleanup_terminates tk'), w)"
      using check_process_health_quiet [OF q', of w] q' Cons.prems(1) tks
      by (simp add: quiet_def)
    have "hd (dropWhile (\<lambda>tk. tk_now tk \<le> ?e) tks) = tk'" using False tks by simp
    moreover have "tk_now tk' \<le> ?e + d" using gap(1) le by simp
    ultimately have "\<exists>t b. watchdog_monitor w tks = (DeclaredFrozen t b, w) \<and>
               t = tk_now (hd (dropWhile (\<lambda>tk. tk_now tk \<le> ?e) tks)) \<and> ?e < t \<and> t \<le> ?e + d"
      using fire False by auto
    then show ?thesis by (simp only: step dw)
  qed
qed

text \<open>
  C4, as stated, fails in its bound on the delay. A watchdog with a timeout of 3 seconds
  and a check interval of 1 second has seen output at time 10; the process then stays
  silent and keeps running. The checks at times 11, 12 and 13 find the silence not yet
  above the timeout; the loop sleeps its check interval, and the next check reads the
  clock at 14.1, which \<^verbatim>\<open>time.sleep\<close> allows. Only then is the process declared frozen
  and its termination requested: more than one check interval after the timeout
  elapsed at time 13.
\<close>

theorem watchdog_frozen_counterexample:
  "slept (wd_check_interval (reset_timer ex_watchdog 10)) (map quiet_tick [11, 12, 13, 141 / 10]) \<and>
   wd_last_output_time (reset_timer ex_watchdog 10) + wd_timeout (reset_timer ex_watchdog 10) = 13 \<and>
   wd_check_interval (reset_timer ex_watchdog 10) = 1 \<and>
   fst (watchdog_monitor (reset_timer ex_watchdog 10) (map quiet_tick [11, 12, 13])) = Watching \<and>
   watchdog_monitor (reset_timer ex_watchdog 10) (map quiet_tick [11, 12, 13, 141 / 10])
     = (DeclaredFrozen (141 / 10) True, reset_timer ex_watchdog 10) \<and>
   (13 + 1 :: rat) < 141 / 10"
  by (simp add: ex_watchdog_def watchdog_init_def reset_timer_def quiet_tick_def
                check_process_health_def cleanup_terminates_def Let_def)

text \<open>
  C4, amended. When the watchdog loop declares the process frozen, it does so at one of
  its checks, and either that check found the process exited, in which case no
  termination is requested, or the process was running, some output had been observed
  and the silence since the last output exceeded the timeout; so a termination is
  requested only if output has previously been observed (before the loop or drained
  from the queue during it) and the silence exceeds the timeout. As long as no output
  has been observed, no termination is requested, and a running process is not declared
  frozen at all, however much time elapses. After output followed by silence, with a
  process that keeps running, the loop declares it frozen at the first check made after
  the timeout has elapsed; when consecutive checks are at most \<open>d\<close> apart, that is at
  most \<open>d\<close> after the timeout elapsed. The code makes consecutive checks at least one
  check interval apart, not at most.
\<close>

theorem watchdog_frozen_rule:
  "(watchdog_monitor w tks = (DeclaredFrozen t b, w') \<longrightarrow>
      (\<exists>tk\<in>set tks. tk_now tk = t \<and> b = cleanup_terminates tk \<and>
         (if tk_exited tk then \<not> b
          else wd_output_detected w' \<and> t - wd_last_output_time w' > wd_timeout w)) \<and>
      (b \<longrightarrow> wd_output_detected w' \<and> t - wd_last_output_time w' > wd_timeout w \<and>
             (wd_output_detected w \<or> (\<exists>tk\<in>set tks. tk_output tk \<noteq> [])))) \<and>
   (\<not> wd_output_detected w \<and> (\<forall>tk\<in>set tks. tk_output tk = []) \<longrightarrow>
      (\<forall>t1. fst (watchdog_monitor w tks) \<noteq> DeclaredFrozen t1 True) \<and>
      ((\<forall>tk\<in>set tks. \<not> tk_exited tk) \<longrightarrow>
         fst (watchdog_monitor w tks) = Watching \<or> fst (watchdog_monitor w tks) = Stopped)) \<and>
   (wd_output_detected w \<and> (\<forall>tk\<in>set tks. quiet tk) \<and> gaps_within d tks \<and> tks \<noteq> [] \<and>
    tk_now (hd tks) \<le> wd_last_output_time w + wd_timeout w \<and>
    wd_last_output_time w + wd_timeout w < tk_now (last tks) \<longrightarrow>
      (\<exists>t2 b2. watchdog_monitor w tks = (DeclaredFrozen t2 b2, w) \<and>
             t2 = tk_now (hd (dropWhile
                                (\<lambda>tk. tk_now tk \<le> wd_last_output_time w + wd_timeout w) tks)) \<and>
             wd_last_output_time w + wd_timeout w < t2 \<and>
             t2 \<le> wd_last_output_time w + wd_timeout w + d))"
proof -
  have A: "watchdog_monitor w tks = (DeclaredFrozen t b, w') \<longrightarrow>
      (\<exists>tk\<in>set tks. tk_now tk = t \<and> b = cleanup_terminates tk \<and>
         (if tk_exited tk then \<not> b
          else wd_output_detected w' \<and> t - wd_last_output_time w' > wd_timeout w)) \<and>
      (b \<longrightarrow> wd_output_detected w' \<and> t - wd_last_output_time w' > wd_timeout w \<and>
             (wd_output_detected w \<or> (\<exists>tk\<in>set tks. tk_output tk \<noteq> [])))"
  proof
    assume m: "watchdog_monitor w tks = (DeclaredFrozen t b, w')"
    note f = watchdog_monitor_frozen [OF m]
    have 1: "\<exists>tk\<in>set tks. tk_now tk = t \<and> b = cleanup_terminates tk \<and>
         (if tk_exited tk then \<not> b
          else wd_output_detected w' \<and> t - wd_last_output_time w' > wd_timeout w)"
      using f(1) unfolding f(2) .
    have 2: "b \<longrightarrow> wd_output_detected w' \<and> t - wd_last_output_time w' > wd_timeout w \<and>
             (wd_output_detected w \<or> (\<exists>tk\<in>set tks. tk_output tk \<noteq> []))"
    proof
      assume b
      with 1 have d: "wd_output_detected w'" "t - wd_last_output_time w' > wd_timeout w"
        by (auto split: if_splits)
      show "wd_output_detected w' \<and> t - wd_last_output_time w' > wd_timeout w \<and>
            (wd_output_detected w \<or> (\<exists>tk\<in>set tks. tk_output tk \<noteq> []))"
        using d f(3) [OF d(1)] by simp
    qed
    show "(\<exists>tk\<in>set tks. tk_now tk = t \<and> b = cleanup_terminates tk \<and>
         (if tk_exited tk then \<not> b
          else wd_output_detected w' \<and> t - wd_last_output_time w' > wd_timeout w)) \<and>
      (b \<longrightarrow> wd_output_detected w' \<and> t - wd_last_output_time w' > wd_timeout w \<and>
             (wd_output_detected w \<or> (\<exists>tk\<in>set tks. tk_output tk \<noteq> [])))"
      using 1 2 by (rule conjI)
  qed
  have B: "\<not> wd_output_detected w \<and> (\<forall>tk\<in>set tks. tk_output tk = []) \<longrightarrow>
      (\<forall>t1. fst (watchdog_monitor w tks) \<noteq> DeclaredFrozen t1 True) \<and>
      ((\<forall>tk\<in>set tks. \<not> tk_exited tk) \<longrightarrow>
         fst (watchdog_monitor w tks) = Watching \<or> fst (watchdog_monitor w tks) = Stopped)"
    using watchdog_monitor_no_output [of w tks] watchdog_monitor_no_termination [of w tks]
    by blast
  have C: "wd_output_detected w \<and> (\<forall>tk\<in>set tks. quiet tk) \<and> gaps_within d tks \<and> tks \<noteq> [] \<and>
    tk_now (hd tks) \<le> wd_last_output_time w + wd_timeout w \<and>
    wd_last_output_time w + wd_timeout w < tk_now (last tks) \<longrightarrow>
      (\<exists>t2 b2. watchdog_monitor w tks = (DeclaredFrozen t2 b2, w) \<and>
             t2 = tk_now (hd (dropWhile
                                (\<lambda>tk. tk_now tk \<le> wd_last_output_time w + wd_timeout w) tks)) \<and>
             wd_last_output_time w + wd_timeout w < t2 \<and>
             t2 \<le> wd_last_output_time w + wd_timeout w + d)"
    using watchdog_monitor_fires [of w tks d] by blast
  show ?thesis by (intro conjI A B C)
qed

theorem watchdog_frozen_rule_witness:
  "(\<exists>t b. watchdog_monitor (reset_timer ex_watchdog 10)
             (map quiet_tick [11, 12, 13, 141 / 10, 152 / 10])
            = (DeclaredFrozen t b, reset_timer ex_watchdog 10) \<and> 13 < t \<and> t \<le> 13 + 11 / 10) \<and>
   watchdog_monitor (reset_timer ex_watchdog 10) (map quiet_tick [11, 12, 13, 141 / 10, 152 / 10])
     = (DeclaredFrozen (141 / 10) True, reset_timer ex_watchdog 10) \<and>
   slept (wd_check_interval (reset_timer ex_watchdog 10))
     (map quiet_tick [11, 12, 13, 141 / 10, 152 / 10]) \<and>
   wd_output_detected (reset_timer ex_watchdog 10) \<and>
   141 / 10 - wd_last_output_time (reset_timer ex_watchdog 10)
     > wd_timeout (reset_timer ex_watchdog 10) \<and>
   fst (watchdog_monitor ex_watchdog (map quiet_tick [11, 12, 13, 141 / 10, 152 / 10])) = Watching"
proof -
  let ?w = "reset_timer ex_watchdog 10"
  let ?tks = "map quiet_tick [11, 12, 13, 141 / 10, 152 / 10]"
  have w: "wd_output_detected ?w" "wd_timeout ?w = 3" "wd_check_interval ?w = 1"
          "wd_last_output_time ?w = 10" "\<not> wd_output_detected ex_watchdog"
    by (simp_all add: ex_watchdog_def watchdog_init_def reset_timer_def)
  have q: "\<forall>tk\<in>set ?tks. quiet tk" "\<forall>tk\<in>set ?tks. tk_output tk = []"
          "\<forall>tk\<in>set ?tks. \<not> tk_exited tk"
    by (simp_all add: quiet_def quiet_tick_def)
  have p: "gaps_within (11 / 10) ?tks" "?tks \<noteq> []" "tk_now (hd ?tks) = 11"
          "tk_now (last ?tks) = 152 / 10" "slept (wd_check_interval ?w) ?tks"
    by (simp_all add: w quiet_tick_def)
  have run: "watchdog_monitor ?w ?tks = (DeclaredFrozen (141 / 10) True, ?w)"
    by (simp add: check_process_health_def cleanup_terminates_def quiet_tick_def Let_def w)
  note th1 = watchdog_frozen_rule [of ?w ?tks "141 / 10" True ?w "11 / 10"]
  note th2 = watchdog_frozen_rule [of ex_watchdog ?tks "141 / 10" True ?w "11 / 10"]
  have "\<exists>t2 b2. watchdog_monitor ?w ?tks = (DeclaredFrozen t2 b2, ?w) \<and>
             t2 = tk_now (hd (dropWhile
                                (\<lambda>tk. tk_now tk \<le> wd_last_output_time ?w + wd_timeout ?w) ?tks)) \<and>
             wd_last_output_time ?w + wd_timeout ?w < t2 \<and>
             t2 \<le> wd_last_output_time ?w + wd_timeout ?w + 11 / 10"
    using th1 [THEN conjunct2, THEN conjunct2] w(1) q(1) p(1,2,3,4) by (simp add: w)
  then have a: "\<exists>t b. watchdog_monitor ?w ?tks = (DeclaredFrozen t b, ?w) \<and> 13 < t \<and> t \<le> 13 + 11 / 10"
    by (simp only: w) auto
  have b: "wd_output_detected ?w \<and> 141 / 10 - wd_last_output_time ?w > wd_timeout ?w"
    using th1 [THEN conjunct1] run by blast
  have c: "fst (watchdog_monitor ex_watchdog ?tks) = Watching"
  proof -
    have "fst (watchdog_monitor ex_watchdog ?tks) = Watching \<or>
          fst (watchdog_monitor ex_watchdog ?tks) = Stopped"
      using th2 [THEN conjunct2, THEN conjunct1] w(5) q(2,3) by blast
    moreover have "fst (watchdog_monitor ex_watchdog ?tks) \<noteq> Stopped"
      by (simp add: check_process_health_def quiet_tick_def Let_def ex_watchdog_def
                    watchdog_init_def)
    ultimately show ?thesis by blast
  qed
  show ?thesis
    by (intro conjI a run p(5) conjunct1 [OF b] conjunct2 [OF b] c)
qed

end
